theory Spec2Isabelle
  imports Complex_Main "HOL-Library.Sublist"
begin

section \<open>Data model of \<^verbatim>\<open>xalbrain/splittingsolver.py\<close>\<close>

text \<open>
  Times, time steps and the splitting weight are Python floats in the source. They are
  modelled as real numbers: \<open>==\<close> is equality and \<open>+\<close>, \<open>-\<close>, \<open>*\<close> are exact.
\<close>

type_synonym interval = "real \<times> real"

text \<open>Exceptions are values; every raise of the source is an \<open>Inl\<close> of the model.\<close>

datatype error =
    AssertionError string
  | UnboundLocalError string
  | RuntimeError string
  | ConfigurationError string
  | IntegrationDivergedError
  | LinearSolveError

text \<open>
  A computation of the source returns a value or raises, and on the way it calls methods
  of objects that live outside \<^verbatim>\<open>splittingsolver.py\<close> (the two sub-solvers, DOLFIN's
  \<^verbatim>\<open>Function.assign\<close> and \<^verbatim>\<open>FunctionAssigner.assign\<close>). The calls are recorded, in
  program order, in a list that is returned beside the result. What is raised (\<open>'x\<close>) is
  the error, or the error with the state that the raise leaves behind where a
  computation mutates an object that outlives it.
\<close>

type_synonym ('e, 'x, 'a) run_with = "'e list \<times> ('x + 'a)"

type_synonym ('e, 'a) run = "('e, error, 'a) run_with"

definition run_ret :: "'a \<Rightarrow> ('e, 'x, 'a) run_with" where
  "run_ret x = ([], Inr x)"

definition run_raise :: "'x \<Rightarrow> ('e, 'x, 'a) run_with" where
  "run_raise e = ([], Inl e)"

definition run_bind ::
  "('e, 'x, 'a) run_with \<Rightarrow> ('a \<Rightarrow> ('e, 'x, 'b) run_with) \<Rightarrow> ('e, 'x, 'b) run_with" where
  "run_bind m f =
     (case m of
        (es, Inl e) \<Rightarrow> (es, Inl e)
      | (es, Inr x) \<Rightarrow> (case f x of (es', r) \<Rightarrow> (es @ es', r)))"

text \<open>The calls made while stepping.\<close>

datatype event =
    ODEStep interval      \<comment> \<open>\<^verbatim>\<open>self.ode_solver.step(interval)\<close>\<close>
  | PDEStep interval      \<comment> \<open>\<^verbatim>\<open>self.pde_solver.step(interval)\<close>\<close>
  | AssignPrevious        \<comment> \<open>\<^verbatim>\<open>self.vs_.assign(self.vs)\<close>\<close>
  | MergerAssign          \<comment> \<open>\<^verbatim>\<open>self.merger.assign(solution.sub(0), v)\<close>\<close>

text \<open>
  The composite state \<^verbatim>\<open>vs\<close> (and \<^verbatim>\<open>vs_\<close>): sub-component 0 is the transmembrane
  potential, the remaining sub-components are the state variables of the cell model.
  \<open>'f\<close> is the type of one discretised scalar field.
\<close>

record 'f composite_state =
  v_part :: 'f                \<comment> \<open>\<^verbatim>\<open>vs.sub(0)\<close>\<close>
  s_part :: "'f list"         \<comment> \<open>\<^verbatim>\<open>vs.sub(1)\<close>, \<^verbatim>\<open>vs.sub(2)\<close>, ...\<close>

text \<open>
  The PDE output \<^verbatim>\<open>vur\<close>: for the bidomain solvers a mixed function whose
  sub-component 0 is the transmembrane potential (followed by the extracellular potential
  and, possibly, the Lagrange multiplier); for the monodomain solvers the transmembrane
  potential itself.
\<close>

datatype 'f potential_field =
    Mixed 'f "'f list"
  | Scalar 'f

text \<open>\<^verbatim>\<open>SplittingParameters\<close>, \<^verbatim>\<open>BidomainParameters\<close>, \<^verbatim>\<open>SingleCellParameters\<close>: the
  attributes that \<^verbatim>\<open>splittingsolver.py\<close> reads.\<close>

record splitting_parameters =
  theta :: real
  apply_stimulus_current_to_pde :: bool

record pde_parameters =
  pde_theta :: real           \<comment> \<open>\<^verbatim>\<open>pde_parameters.theta\<close>\<close>
  pde_solver_name :: string   \<comment> \<open>\<^verbatim>\<open>pde_parameters.solver\<close>\<close>

record ode_parameters =
  ode_solver_name :: string   \<comment> \<open>\<^verbatim>\<open>ode_parameters.solver\<close>\<close>

text \<open>
  The sub-solver objects. Their classes are defined in \<^verbatim>\<open>xalbrain/cellsolver.py\<close>,
  \<^verbatim>\<open>bidomainsolver.py\<close> and \<^verbatim>\<open>monodomainsolver.py\<close>; the splitting solver uses only
  \<^verbatim>\<open>step\<close> and \<^verbatim>\<open>solution_fields\<close>, which are taken as they are given.

  \<^item> \<^verbatim>\<open>ode_solver.step(interval)\<close> reads the previous state \<^verbatim>\<open>vs_\<close> and writes the current
    state \<^verbatim>\<open>vs\<close>, or raises.
  \<^item> \<^verbatim>\<open>pde_solver.step(interval)\<close> reads its \<^verbatim>\<open>v_\<close>, which the splitting solver has set
    to \<^verbatim>\<open>self.vs[0]\<close>, and its own \<^verbatim>\<open>vur\<close>, and writes \<^verbatim>\<open>vur\<close>, or raises.
  \<^item> A step that raises may have written a part of its output. \<open>ode_left\<close> and
    \<open>pde_left\<close> say what the output field holds then, from what the step read and
    what the field held before; they too are taken as they are given.
\<close>

record 'f ode_solver_object =
  ode_step :: "interval \<Rightarrow> 'f composite_state \<Rightarrow> error + 'f composite_state"
  ode_left :: "interval \<Rightarrow> 'f composite_state \<Rightarrow> 'f composite_state \<Rightarrow> 'f composite_state"
  ode_solution_fields :: "'f composite_state \<times> 'f composite_state"

record 'f pde_solver_object =
  pde_step :: "interval \<Rightarrow> 'f \<Rightarrow> 'f potential_field \<Rightarrow> error + 'f potential_field"
  pde_left :: "interval \<Rightarrow> 'f \<Rightarrow> 'f potential_field \<Rightarrow> 'f potential_field"
  pde_solution_fields :: "'f potential_field"

text \<open>The attributes of a \<^verbatim>\<open>SplittingSolver\<close>. \<open>vs_prev\<close> is \<^verbatim>\<open>self.vs_\<close>.\<close>

record 'f splitting_solver =
  parameters :: splitting_parameters
  pde_parameters :: pde_parameters
  ode_parameters :: ode_parameters
  ode_solver :: "'f ode_solver_object"
  pde_solver :: "'f pde_solver_object"
  vs_prev :: "'f composite_state"
  vs :: "'f composite_state"
  vur :: "'f potential_field"

section \<open>\<^verbatim>\<open>SplittingSolver.merge\<close>\<close>

definition bidomain_names :: "string list" where
  "bidomain_names = [''BasicBidomainSolver'', ''BidomainSolver'']"

text \<open>
  \<^verbatim>\<open>merge(solution)\<close> mutates the function it is given; the model returns the function
  after the call. \<^verbatim>\<open>vur.sub(0)\<close> of a function that has no sub-components raises, and so
  does the assigner, built for the space of a scalar \<^verbatim>\<open>vur\<close>, when it is handed a mixed one.
\<close>

definition merge ::
  "'f splitting_solver \<Rightarrow> 'f composite_state \<Rightarrow> (event, 'f composite_state) run" where
  "merge self solution =
     (if pde_solver_name (pde_parameters self) \<in> set bidomain_names then
        (case vur self of
           Mixed v ur \<Rightarrow> ([MergerAssign], Inr (solution\<lparr>v_part := v\<rparr>))
         | Scalar w \<Rightarrow> run_raise (RuntimeError ''No subfunctions to extract''))
      else
        (case vur self of
           Scalar v \<Rightarrow> ([MergerAssign], Inr (solution\<lparr>v_part := v\<rparr>))
         | Mixed w ur \<Rightarrow> ([MergerAssign], Inl (RuntimeError ''Function spaces do not match''))))"

text \<open>The transmembrane potential that \<^verbatim>\<open>merge\<close> reads from the PDE solver.\<close>

fun pde_v :: "'f potential_field \<Rightarrow> 'f" where
  "pde_v (Mixed v ur) = v"
| "pde_v (Scalar v) = v"

section \<open>\<^verbatim>\<open>SplittingSolver.step\<close>\<close>

text \<open>
  The methods below mutate the solver's fields in place. A call returns the solver as
  it is after the call, or raises: then the error comes with the solver as the raise
  leaves it, since the fields written before the raise stay written.
\<close>

type_synonym 'f stepping =
  "(event, error \<times> 'f splitting_solver, 'f splitting_solver) run_with"

definition ode_solver_step :: "'f splitting_solver \<Rightarrow> interval \<Rightarrow> 'f stepping" where
  "ode_solver_step self iv =
     ([ODEStep iv],
      case ode_step (ode_solver self) iv (vs_prev self) of
        Inl e \<Rightarrow> Inl (e, self\<lparr>vs := ode_left (ode_solver self) iv (vs_prev self) (vs self)\<rparr>)
      | Inr y \<Rightarrow> Inr (self\<lparr>vs := y\<rparr>))"

definition pde_solver_step :: "'f splitting_solver \<Rightarrow> interval \<Rightarrow> 'f stepping" where
  "pde_solver_step self iv =
     ([PDEStep iv],
      case pde_step (pde_solver self) iv (v_part (vs self)) (vur self) of
        Inl e \<Rightarrow> Inl (e, self\<lparr>vur := pde_left (pde_solver self) iv (v_part (vs self)) (vur self)\<rparr>)
      | Inr w \<Rightarrow> Inr (self\<lparr>vur := w\<rparr>))"

definition assign_previous :: "'f splitting_solver \<Rightarrow> 'f stepping" where
  "assign_previous self = ([AssignPrevious], Inr (self\<lparr>vs_prev := vs self\<rparr>))"

text \<open>A \<^verbatim>\<open>merge\<close> that raises has assigned nothing: it leaves the solver as it found it.\<close>

definition raising_in ::
  "'f splitting_solver \<Rightarrow> ('e, 'a) run \<Rightarrow> ('e, error \<times> 'f splitting_solver, 'a) run_with" where
  "raising_in self m =
     (case m of
        (es, Inl e) \<Rightarrow> (es, Inl (e, self))
      | (es, Inr x) \<Rightarrow> (es, Inr x))"

definition step :: "'f splitting_solver \<Rightarrow> interval \<Rightarrow> 'f stepping" where
  "step self interval =
     (let theta = theta (parameters self);
          (t0, t1) = interval;
          dt = t1 - t0;
          t = t0 + theta * dt
      in run_bind (ode_solver_step self (t0, t)) (\<lambda>self.
         run_bind (pde_solver_step self (t0, t1)) (\<lambda>self.
         if theta = 1 then
           run_bind (raising_in self (merge self (vs self))) (\<lambda>m. run_ret (self\<lparr>vs := m\<rparr>))
         else
           run_bind (assign_previous self) (\<lambda>self.
           run_bind (raising_in self (merge self (vs_prev self))) (\<lambda>m.
           run_bind (ode_solver_step (self\<lparr>vs_prev := m\<rparr>) (t, t1)) (\<lambda>self.
           assign_previous self))))))"

text \<open>
  \<^verbatim>\<open>solution_fields\<close> returns the solver's own three function objects, not copies of
  them: what such an object holds is read in the solver as it is at the time of the
  reading.
\<close>

datatype solution_object =
    Object_vs_prev     \<comment> \<open>\<^verbatim>\<open>self.vs_\<close>\<close>
  | Object_vs          \<comment> \<open>\<^verbatim>\<open>self.vs\<close>\<close>
  | Object_vur         \<comment> \<open>\<^verbatim>\<open>self.vur\<close>\<close>

definition solution_fields ::
  "'f splitting_solver \<Rightarrow> solution_object \<times> solution_object \<times> solution_object" where
  "solution_fields self = (Object_vs_prev, Object_vs, Object_vur)"

datatype 'f function_value =
    Composite "'f composite_state"
  | Potential "'f potential_field"

fun contents :: "'f splitting_solver \<Rightarrow> solution_object \<Rightarrow> 'f function_value" where
  "contents self Object_vs_prev = Composite (vs_prev self)"
| "contents self Object_vs = Composite (vs self)"
| "contents self Object_vur = Potential (vur self)"

type_synonym 'f fields = "'f function_value \<times> 'f function_value \<times> 'f function_value"

definition read_fields ::
  "'f splitting_solver \<Rightarrow> solution_object \<times> solution_object \<times> solution_object \<Rightarrow> 'f fields" where
  "read_fields self objects =
     (case objects of (a, b, c) \<Rightarrow> (contents self a, contents self b, contents self c))"

section \<open>\<^verbatim>\<open>SplittingSolver.__init__\<close>\<close>

text \<open>
  The cardiac model (\<^verbatim>\<open>xalbrain/models.py\<close>, not part of the verified file): the
  currents that the constructor hands on. \<open>'c\<close> is the type of a current.
\<close>

record 'c cardiac_model =
  stimulus :: 'c
  applied_current :: 'c
  ect_current :: 'c

text \<open>
  A call of a sub-solver's constructor: the class that was selected and the keyword
  arguments. \<open>None\<close> is Python's \<^verbatim>\<open>None\<close>, or a keyword that is not passed.
  The PDE solvers are also passed \<^verbatim>\<open>v_ = self.vs[0]\<close>; that link is the
  second argument of \<open>pde_step\<close>.
\<close>

record 'c ode_solver_call =
  ode_class :: string
  ode_I_s :: "'c option"
  ode_call_parameters :: ode_parameters

record 'c pde_solver_call =
  pde_class :: string
  pde_I_s :: "'c option"
  pde_I_a :: "'c option"
  pde_ect_current :: "'c option"
  pde_call_parameters :: pde_parameters

datatype 'c creation =
    CreateODESolver "'c ode_solver_call"
  | CreatePDESolver "'c pde_solver_call"

text \<open>The sub-solver classes, as given: a constructor returns the object or raises.\<close>

record ('c, 'f) solver_classes =
  new_ode_solver :: "'c ode_solver_call \<Rightarrow> error + 'f ode_solver_object"
  new_pde_solver :: "'c pde_solver_call \<Rightarrow> error + 'f pde_solver_object"

text \<open>
  \<^verbatim>\<open>_create_ode_solver\<close>. When \<^verbatim>\<open>ode_parameters.solver\<close> is neither of the two names,
  \<^verbatim>\<open>solver_class\<close> is never bound and its use raises.
\<close>

definition create_ode_solver ::
  "('c, 'f) solver_classes \<Rightarrow> 'c cardiac_model \<Rightarrow> splitting_parameters \<Rightarrow> ode_parameters
     \<Rightarrow> ('c creation, 'f ode_solver_object) run" where
  "create_ode_solver classes model params ode_params =
     (let I_s = (if apply_stimulus_current_to_pde params then None
                   else Some (stimulus model));
          call = (\<lambda>solver_class.
                    \<lparr> ode_class = solver_class, ode_I_s = I_s,
                      ode_call_parameters = ode_params \<rparr>)
      in if ode_solver_name ode_params = ''BasicCardiacODESolver'' then
           ([CreateODESolver (call ''BasicCardiacODESolver'')],
            new_ode_solver classes (call ''BasicCardiacODESolver''))
         else if ode_solver_name ode_params = ''CardiacODESolver'' then
           ([CreateODESolver (call ''CardiacODESolver'')],
            new_ode_solver classes (call ''CardiacODESolver''))
         else run_raise (UnboundLocalError ''solver_class''))"

text \<open>
  \<^verbatim>\<open>_create_pde_solver\<close>. The bidomain solvers get \<^verbatim>\<open>I_a\<close> and \<^verbatim>\<open>ect_current\<close>, the
  monodomain solvers do not. A name that is none of the four leaves \<^verbatim>\<open>PDESolver\<close>
  unbound.
\<close>

definition create_pde_solver ::
  "('c, 'f) solver_classes \<Rightarrow> 'c cardiac_model \<Rightarrow> splitting_parameters \<Rightarrow> pde_parameters
     \<Rightarrow> ('c creation, 'f pde_solver_object) run" where
  "create_pde_solver classes model params pde_params =
     (let I_a = applied_current model;
          ect = ect_current model;
          I_s = (if apply_stimulus_current_to_pde params then Some (stimulus model)
                 else None);
          name = pde_solver_name pde_params
      in if name \<in> set bidomain_names then
           (let call = \<lparr> pde_class = name, pde_I_s = I_s, pde_I_a = Some I_a,
                         pde_ect_current = Some ect,
                         pde_call_parameters = pde_params \<rparr>
            in ([CreatePDESolver call], new_pde_solver classes call))
         else if name = ''BasicMonodomainSolver'' \<or> name = ''MonodomainSolver'' then
           (let call = \<lparr> pde_class = name, pde_I_s = I_s, pde_I_a = None,
                         pde_ect_current = None, pde_call_parameters = pde_params \<rparr>
            in ([CreatePDESolver call], new_pde_solver classes call))
         else run_raise (UnboundLocalError ''PDESolver''))"

text \<open>
  The creation of \<^verbatim>\<open>self.merger\<close>: \<^verbatim>\<open>function_space().sub(0)\<close> needs a mixed space, and
  \<^verbatim>\<open>FunctionAssigner(self.VS.sub(0), V)\<close> needs \<open>V\<close> to be a scalar space.
\<close>

definition create_merger :: "pde_parameters \<Rightarrow> 'f potential_field \<Rightarrow> ('e, unit) run" where
  "create_merger pde_params w =
     (if pde_solver_name pde_params \<in> set bidomain_names then
        (case w of
           Mixed v ur \<Rightarrow> run_ret ()
         | Scalar v \<Rightarrow> run_raise (RuntimeError ''No subspaces to extract''))
      else
        (case w of
           Scalar v \<Rightarrow> run_ret ()
         | Mixed v ur \<Rightarrow> run_raise (RuntimeError ''Function spaces do not match'')))"

definition init ::
  "('c, 'f) solver_classes \<Rightarrow> 'c cardiac_model \<Rightarrow> splitting_parameters \<Rightarrow> pde_parameters
     \<Rightarrow> ode_parameters \<Rightarrow> ('c creation, 'f splitting_solver) run" where
  "init classes model params pde_params ode_params =
     (if theta params \<noteq> pde_theta pde_params then
        run_raise (AssertionError ''Got two different values for theta.'')
      else
        run_bind (create_ode_solver classes model params ode_params) (\<lambda>ode.
        run_bind (create_pde_solver classes model params pde_params) (\<lambda>pde.
        run_bind (create_merger pde_params (pde_solution_fields pde)) (\<lambda>_.
        run_ret \<lparr> parameters = params,
                  pde_parameters = pde_params,
                  ode_parameters = ode_params,
                  ode_solver = ode,
                  pde_solver = pde,
                  vs_prev = fst (ode_solution_fields ode),
                  vs = snd (ode_solution_fields ode),
                  vur = pde_solution_fields pde \<rparr>))))"

section \<open>The time stepper\<close>

text \<open>
  Modelled from the spec: the class \<^verbatim>\<open>TimeStepper\<close> of \<^verbatim>\<open>xalbrain/utils.py\<close>, which
  is not among the sources. The spec's contract for a constant step: the intervals tile
  \<open>[T0, T1]\<close>, the last one is clipped so that it never overruns \<open>T1\<close>, and
  \<open>\<Delta>t \<le> 0\<close> or \<open>T0 \<ge> T1\<close> is a configuration error.
\<close>

function time_steps :: "real \<Rightarrow> real \<Rightarrow> real \<Rightarrow> interval list" where
  "time_steps t T1 dt =
     (if dt \<le> 0 \<or> T1 \<le> t then []
      else (t, min (t + dt) T1) # time_steps (min (t + dt) T1) T1 dt)"
  by pat_completeness auto
termination
proof (relation "measure (\<lambda>(t, T1, dt). nat \<lceil>(T1 - t) / dt\<rceil>)", goal_cases)
  case 1
  show ?case by simp
next
  case (2 t T1 dt)
  then have dt: "0 < dt" and lt: "t < T1" by auto
  have "0 < (T1 - t) / dt" using dt lt by simp
  then have c1: "1 \<le> \<lceil>(T1 - t) / dt\<rceil>" by linarith
  show ?case
  proof (cases "t + dt \<le> T1")
    case True
    have "(T1 - (t + dt)) / dt = (T1 - t) / dt - 1"
      using dt by (simp add: field_simps)
    then have "\<lceil>(T1 - (t + dt)) / dt\<rceil> = \<lceil>(T1 - t) / dt\<rceil> - 1"
      by simp
    with c1 True show ?thesis by (simp add: min_def)
  next
    case False
    with c1 show ?thesis by (simp add: min_def)
  qed
qed

text \<open>
  Modelled from the spec: \<^verbatim>\<open>TimeStepper(interval, dt)\<close> for a constant \<open>dt\<close>, with the
  spec's configuration error; the message of the error is not specified.
\<close>

definition TimeStepper :: "interval \<Rightarrow> real \<Rightarrow> error + interval list" where
  "TimeStepper interval dt =
     (case interval of (T0, T1) \<Rightarrow>
        if dt \<le> 0 \<or> T1 \<le> T0 then Inl (ConfigurationError ''invalid time stepping'')
        else Inr (time_steps T0 T1 dt))"

section \<open>\<^verbatim>\<open>SplittingSolver.solve\<close>\<close>

text \<open>
  \<^verbatim>\<open>solve\<close> is a generator function. A generator object is either not started (no
  statement of the body has run), suspended at the \<^verbatim>\<open>yield\<close> with the intervals that the
  time stepper has still to produce, or finished: exhausted, or ended by an exception.
  The solver outlives the generator; a finished generator is kept with the solver as
  the last statement left it.

  The time stepper is a parameter of the generator, a function from
  \<^verbatim>\<open>(interval, dt)\<close> to the intervals it produces.
\<close>

type_synonym time_stepper = "interval \<Rightarrow> real \<Rightarrow> error + interval list"

datatype 'f generator =
    NotStarted "'f splitting_solver" interval real
  | Suspended "'f splitting_solver" "interval list"
  | Finished "(error \<times> 'f splitting_solver) + 'f splitting_solver"

fun solver_of :: "'f generator \<Rightarrow> 'f splitting_solver" where
  "solver_of (NotStarted self interval dt) = self"
| "solver_of (Suspended self ivs) = self"
| "solver_of (Finished (Inl (e, self))) = self"
| "solver_of (Finished (Inr self)) = self"

text \<open>What \<^verbatim>\<open>next()\<close> gives: the yielded pair of the interval and the objects, or the
  end of the iteration, or an exception.\<close>

datatype outcome =
    Yield interval "solution_object \<times> solution_object \<times> solution_object"
  | StopIteration
  | Raise error

definition solve :: "'f splitting_solver \<Rightarrow> interval \<Rightarrow> real \<Rightarrow> 'f generator" where
  "solve self interval dt = NotStarted self interval dt"

text \<open>The head of the \<^verbatim>\<open>for\<close> loop: take the next interval, step, yield.\<close>

definition loop_head ::
  "'f splitting_solver \<Rightarrow> interval list \<Rightarrow> event list \<times> outcome \<times> 'f generator" where
  "loop_head self ivs =
     (case ivs of
        [] \<Rightarrow> ([], StopIteration, Finished (Inr self))
      | iv # rest \<Rightarrow>
          (case step self iv of
             (es, Inl (e, self')) \<Rightarrow> (es, Raise e, Finished (Inl (e, self')))
           | (es, Inr self') \<Rightarrow> (es, Yield iv (solution_fields self'), Suspended self' rest)))"

text \<open>
  One \<^verbatim>\<open>next()\<close> on the generator. Resuming after the \<^verbatim>\<open>yield\<close> first runs
  \<^verbatim>\<open>self.vs_.assign(self.vs)\<close>.
\<close>

definition gen_next ::
  "time_stepper \<Rightarrow> 'f generator \<Rightarrow> event list \<times> outcome \<times> 'f generator" where
  "gen_next time_stepper g =
     (case g of
        NotStarted self interval dt \<Rightarrow>
          (case time_stepper interval dt of
             Inl e \<Rightarrow> ([], Raise e, Finished (Inl (e, self)))
           | Inr ivs \<Rightarrow> loop_head self ivs)
      | Suspended self ivs \<Rightarrow>
          (case loop_head (self\<lparr>vs_prev := vs self\<rparr>) ivs of
             (es, r) \<Rightarrow> (AssignPrevious # es, r))
      | Finished r \<Rightarrow> ([], StopIteration, Finished r))"

text \<open>
  The variant of the generator that does not reassign after the \<^verbatim>\<open>yield\<close>, so that
  a Strang step assigns the previous state from the final current state once (at the end
  of \<^verbatim>\<open>step\<close>) instead of twice.
\<close>

definition gen_next_single_assign ::
  "time_stepper \<Rightarrow> 'f generator \<Rightarrow> event list \<times> outcome \<times> 'f generator" where
  "gen_next_single_assign time_stepper g =
     (case g of
        NotStarted self interval dt \<Rightarrow>
          (case time_stepper interval dt of
             Inl e \<Rightarrow> ([], Raise e, Finished (Inl (e, self)))
           | Inr ivs \<Rightarrow> loop_head self ivs)
      | Suspended self ivs \<Rightarrow> loop_head self ivs
      | Finished r \<Rightarrow> ([], StopIteration, Finished r))"

text \<open>The number of intervals a generator has still to go through.\<close>

fun pending :: "time_stepper \<Rightarrow> 'f generator \<Rightarrow> nat" where
  "pending time_stepper (NotStarted self interval dt) =
     (case time_stepper interval dt of Inl e \<Rightarrow> 1 | Inr ivs \<Rightarrow> Suc (length ivs))"
| "pending time_stepper (Suspended self ivs) = Suc (length ivs)"
| "pending time_stepper (Finished r) = 0"

text \<open>
  What a caller sees when \<^verbatim>\<open>next()\<close> has given \<open>out\<close> and left the generator \<open>g\<close>,
  if it reads the yielded objects at once: the values they hold at the \<^verbatim>\<open>yield\<close>.
\<close>

datatype 'f observation =
    Seen interval "'f fields"
  | Stopped
  | Raised error

fun observe :: "outcome \<Rightarrow> 'f generator \<Rightarrow> 'f observation" where
  "observe (Yield iv objects) g = Seen iv (read_fields (solver_of g) objects)"
| "observe StopIteration g = Stopped"
| "observe (Raise e) g = Raised e"

text \<open>
  A caller's \<^verbatim>\<open>for (interval, fields) in solver.solve(...)\<close> loop that copies, at each
  \<^verbatim>\<open>yield\<close>, what the objects hold: \<^verbatim>\<open>next()\<close> until the generator stops or raises. The
  result is the list of the copies, the outcome that ended the loop and the generator
  as it is then.
\<close>

function consume ::
  "time_stepper \<Rightarrow> 'f generator \<Rightarrow> (interval \<times> 'f fields) list \<times> outcome \<times> 'f generator" where
  "consume time_stepper g =
     (case snd (gen_next time_stepper g) of
        (Yield iv objects, g') \<Rightarrow>
          (case consume time_stepper g' of
             (ys, r) \<Rightarrow> ((iv, read_fields (solver_of g') objects) # ys, r))
      | (StopIteration, g') \<Rightarrow> ([], StopIteration, g')
      | (Raise e, g') \<Rightarrow> ([], Raise e, g'))"
  by pat_completeness auto
termination
proof (relation "measure (\<lambda>(ts, g). pending ts g)", goal_cases)
  case 1
  show ?case by simp
next
  case (2 ts g x y iv objects)
  have head: "pending ts g' = length ivs"
    if "loop_head self ivs = (es, Yield iv objects, g')" for self :: "'a splitting_solver" and ivs es g'
    using that by (auto simp: loop_head_def split: list.splits prod.splits sum.splits)
  from 2 have "pending ts y < pending ts g"
    by (cases g; cases "gen_next ts g")
       (auto simp: gen_next_def dest: head split: sum.splits prod.splits)
  then show ?case by simp
qed

text \<open>
  A caller that keeps the yielded tuples instead: what the objects of any of them hold
  when the generator is \<open>g\<close>.
\<close>

definition held :: "'f generator \<Rightarrow> 'f fields" where
  "held g = read_fields (solver_of g) (solution_fields (solver_of g))"

text \<open>
  \<open>n\<close> calls of \<^verbatim>\<open>next()\<close> in a row, for a caller that may stop early and that reads
  the yielded objects at each \<^verbatim>\<open>yield\<close>: what it sees, and the generator after the last
  call. \<open>nx\<close> is the generator's \<^verbatim>\<open>next\<close>.
\<close>

primrec nexts ::
  "('f generator \<Rightarrow> 'l \<times> outcome \<times> 'f generator) \<Rightarrow> nat \<Rightarrow> 'f generator
     \<Rightarrow> 'f observation list \<times> 'f generator" where
  "nexts nx 0 g = ([], g)"
| "nexts nx (Suc n) g =
     (case nx g of (es, out, g') \<Rightarrow>
        (case nexts nx n g' of (outs, g'') \<Rightarrow> (observe out g' # outs, g'')))"

section \<open>A small instance\<close>

text \<open>
  Sub-solvers over integer fields, used to evaluate the definitions on concrete inputs:
  the ODE step adds the interval's length in tenths (rounded down) to every component,
  the PDE step doubles the potential it reads. \<open>failing_pde\<close> raises on an interval
  that starts at or after the given time. A step that raises leaves its output field
  as it was.
\<close>

definition example_ode :: "int ode_solver_object" where
  "example_ode =
     \<lparr> ode_step = (\<lambda>(a, b) c. Inr (c\<lparr>v_part := v_part c + \<lfloor>10 * (b - a)\<rfloor>,
                                      s_part := map (\<lambda>x. x + \<lfloor>10 * (b - a)\<rfloor>) (s_part c)\<rparr>)),
       ode_left = (\<lambda>iv p c. c),
       ode_solution_fields = (\<lparr>v_part = 3, s_part = [4]\<rparr>, \<lparr>v_part = 0, s_part = [0]\<rparr>) \<rparr>"

definition example_pde :: "int pde_solver_object" where
  "example_pde =
     \<lparr> pde_step = (\<lambda>(a, b) x old. Inr (Mixed (2 * x) [7])),
       pde_left = (\<lambda>iv x old. old),
       pde_solution_fields = Mixed 0 [0] \<rparr>"

definition failing_pde :: "real \<Rightarrow> int pde_solver_object" where
  "failing_pde t =
     \<lparr> pde_step = (\<lambda>(a, b) x old. if t \<le> a then Inl LinearSolveError else Inr (Mixed (2 * x) [7])),
       pde_left = (\<lambda>iv x old. old),
       pde_solution_fields = Mixed 0 [0] \<rparr>"

definition example_solver :: "real \<Rightarrow> int pde_solver_object \<Rightarrow> int splitting_solver" where
  "example_solver th pde =
     \<lparr> parameters = \<lparr> theta = th, apply_stimulus_current_to_pde = False \<rparr>,
       pde_parameters = \<lparr> pde_theta = th, pde_solver_name = ''BidomainSolver'' \<rparr>,
       ode_parameters = \<lparr> ode_solver_name = ''CardiacODESolver'' \<rparr>,
       ode_solver = example_ode,
       pde_solver = pde,
       vs_prev = fst (ode_solution_fields example_ode),
       vs = snd (ode_solution_fields example_ode),
       vur = pde_solution_fields pde \<rparr>"

definition example_classes :: "(nat, int) solver_classes" where
  "example_classes =
     \<lparr> new_ode_solver = (\<lambda>call. Inr example_ode),
       new_pde_solver = (\<lambda>call. Inr example_pde) \<rparr>"

definition example_model :: "nat cardiac_model" where
  "example_model = \<lparr> stimulus = 100, applied_current = 5, ect_current = 6 \<rparr>"

definition example_parameters :: "real \<Rightarrow> bool \<Rightarrow> splitting_parameters" where
  "example_parameters th to_pde = \<lparr> theta = th, apply_stimulus_current_to_pde = to_pde \<rparr>"

definition example_pde_parameters :: "real \<Rightarrow> pde_parameters" where
  "example_pde_parameters th = \<lparr> pde_theta = th, pde_solver_name = ''BidomainSolver'' \<rparr>"

definition example_ode_parameters :: ode_parameters where
  "example_ode_parameters = \<lparr> ode_solver_name = ''CardiacODESolver'' \<rparr>"

section \<open>Auxiliary facts\<close>

declare time_steps.simps [simp del]

declare consume.simps [simp del]

lemma snd_run_bind:
  "snd (run_bind m f) = (case snd m of Inl e \<Rightarrow> Inl e | Inr x \<Rightarrow> snd (f x))"
  by (cases m) (auto simp: run_bind_def split: sum.splits prod.splits)

lemma fst_run_bind:
  "fst (run_bind m f) = (case snd m of Inl e \<Rightarrow> fst m | Inr x \<Rightarrow> fst m @ fst (f x))"
  by (cases m) (auto simp: run_bind_def split: sum.splits prod.splits)

lemma fst_raising_in: "fst (raising_in s m) = fst m"
  by (cases m) (auto simp: raising_in_def split: sum.splits)

lemma snd_raising_in:
  "snd (raising_in s m) = (case snd m of Inl e \<Rightarrow> Inl (e, s) | Inr x \<Rightarrow> Inr x)"
  by (cases m) (auto simp: raising_in_def split: sum.splits)

lemma merge_reads:
  "pde_parameters s = pde_parameters s' \<Longrightarrow> vur s = vur s' \<Longrightarrow> merge s x = merge s' x"
  by (simp add: merge_def)

lemma merge_result:
  "snd (merge self x) = Inr m \<Longrightarrow>
     merge self x = ([MergerAssign], Inr (x\<lparr>v_part := pde_v (vur self)\<rparr>))"
  by (auto simp: merge_def run_raise_def split: if_splits potential_field.splits)

lemma merge_calls: "fst (merge self x) = [] \<or> fst (merge self x) = [MergerAssign]"
  by (auto simp: merge_def run_raise_def split: if_splits potential_field.splits)

lemma step_result:
  "snd (step self (t0, t1)) =
     (case ode_step (ode_solver self) (t0, t0 + theta (parameters self) * (t1 - t0)) (vs_prev self) of
        Inl e \<Rightarrow>
          Inl (e, self\<lparr>vs := ode_left (ode_solver self)
                               (t0, t0 + theta (parameters self) * (t1 - t0)) (vs_prev self) (vs self)\<rparr>)
      | Inr a \<Rightarrow>
         (case pde_step (pde_solver self) (t0, t1) (v_part a) (vur self) of
            Inl e \<Rightarrow>
              Inl (e, self\<lparr>vs := a,
                           vur := pde_left (pde_solver self) (t0, t1) (v_part a) (vur self)\<rparr>)
          | Inr w \<Rightarrow>
             (case snd (merge (self\<lparr>vur := w\<rparr>) a) of
                Inl e \<Rightarrow>
                  Inl (e, if theta (parameters self) = 1 then self\<lparr>vs := a, vur := w\<rparr>
                          else self\<lparr>vs_prev := a, vs := a, vur := w\<rparr>)
              | Inr m \<Rightarrow>
                 if theta (parameters self) = 1 then Inr (self\<lparr>vs := m, vur := w\<rparr>)
                 else (case ode_step (ode_solver self)
                              (t0 + theta (parameters self) * (t1 - t0), t1) m of
                         Inl e \<Rightarrow>
                           Inl (e, self\<lparr>vs_prev := m,
                                        vs := ode_left (ode_solver self)
                                                (t0 + theta (parameters self) * (t1 - t0), t1) m a,
                                        vur := w\<rparr>)
                       | Inr c \<Rightarrow> Inr (self\<lparr>vs_prev := c, vs := c, vur := w\<rparr>)))))"
proof -
  have a: "merge (self\<lparr>vs := a, vur := w\<rparr>) a = merge (self\<lparr>vur := w\<rparr>) a" for a w
    by (rule merge_reads) simp_all
  have b: "merge (self\<lparr>vs := a, vur := w, vs_prev := a\<rparr>) a = merge (self\<lparr>vur := w\<rparr>) a" for a w
    by (rule merge_reads) simp_all
  show ?thesis
    by (simp add: step_def Let_def snd_run_bind snd_raising_in run_ret_def ode_solver_step_def
        pde_solver_step_def assign_previous_def a b split: sum.splits)
qed

lemma step_calls:
  "fst (step self (t0, t1)) =
     (case ode_step (ode_solver self) (t0, t0 + theta (parameters self) * (t1 - t0)) (vs_prev self) of
        Inl e \<Rightarrow> [ODEStep (t0, t0 + theta (parameters self) * (t1 - t0))]
      | Inr a \<Rightarrow>
         (case pde_step (pde_solver self) (t0, t1) (v_part a) (vur self) of
            Inl e \<Rightarrow> [ODEStep (t0, t0 + theta (parameters self) * (t1 - t0)), PDEStep (t0, t1)]
          | Inr w \<Rightarrow>
              if theta (parameters self) = 1 then
                [ODEStep (t0, t0 + theta (parameters self) * (t1 - t0)), PDEStep (t0, t1)]
                  @ fst (merge (self\<lparr>vur := w\<rparr>) a)
              else
                [ODEStep (t0, t0 + theta (parameters self) * (t1 - t0)), PDEStep (t0, t1),
                 AssignPrevious] @ fst (merge (self\<lparr>vur := w\<rparr>) a)
                  @ (case snd (merge (self\<lparr>vur := w\<rparr>) a) of
                       Inl e \<Rightarrow> []
                     | Inr m \<Rightarrow>
                         ODEStep (t0 + theta (parameters self) * (t1 - t0), t1)
                           # (case ode_step (ode_solver self)
                                     (t0 + theta (parameters self) * (t1 - t0), t1) m of
                                Inl e \<Rightarrow> []
                              | Inr c \<Rightarrow> [AssignPrevious]))))"
proof -
  have a: "merge (self\<lparr>vs := a, vur := w\<rparr>) a = merge (self\<lparr>vur := w\<rparr>) a" for a w
    by (rule merge_reads) simp_all
  have b: "merge (self\<lparr>vs := a, vur := w, vs_prev := a\<rparr>) a = merge (self\<lparr>vur := w\<rparr>) a" for a w
    by (rule merge_reads) simp_all
  show ?thesis
    by (simp add: step_def Let_def snd_run_bind fst_run_bind snd_raising_in fst_raising_in
        run_ret_def ode_solver_step_def pde_solver_step_def assign_previous_def a b
        split: sum.splits)
qed

lemma merge_shape:
  "(\<exists>e. merge self x = ([], Inl e)) \<or> (\<exists>e. merge self x = ([MergerAssign], Inl e))
   \<or> merge self x = ([MergerAssign], Inr (x\<lparr>v_part := pde_v (vur self)\<rparr>))"
  by (auto simp: merge_def run_raise_def split: if_splits potential_field.splits)

lemma step_calls_prefix:
  "prefix (fst (step self (t0, t1)))
         (if theta (parameters self) = 1 then
            [ODEStep (t0, t0 + theta (parameters self) * (t1 - t0)), PDEStep (t0, t1), MergerAssign]
          else
            [ODEStep (t0, t0 + theta (parameters self) * (t1 - t0)), PDEStep (t0, t1),
             AssignPrevious, MergerAssign,
             ODEStep (t0 + theta (parameters self) * (t1 - t0), t1), AssignPrevious])"
proof (cases "ode_step (ode_solver self) (t0, t0 + theta (parameters self) * (t1 - t0)) (vs_prev self)")
  case (Inl e)
  then show ?thesis by (simp only: step_calls) simp
next
  case a: (Inr a)
  show ?thesis
  proof (cases "pde_step (pde_solver self) (t0, t1) (v_part a) (vur self)")
    case (Inl e)
    with a show ?thesis by (simp only: step_calls) simp
  next
    case w: (Inr w)
    from merge_shape [of "self\<lparr>vur := w\<rparr>" a] show ?thesis
    proof (elim disjE exE)
      fix e assume "merge (self\<lparr>vur := w\<rparr>) a = ([], Inl e)"
      with a w show ?thesis by (simp only: step_calls) simp
    next
      fix e assume "merge (self\<lparr>vur := w\<rparr>) a = ([MergerAssign], Inl e)"
      with a w show ?thesis by (simp only: step_calls) simp
    next
      assume "merge (self\<lparr>vur := w\<rparr>) a
                = ([MergerAssign], Inr (a\<lparr>v_part := pde_v (vur (self\<lparr>vur := w\<rparr>))\<rparr>))"
      with a w show ?thesis by (simp only: step_calls) (simp split: sum.splits)
    qed
  qed
qed

lemma consume_Finished: "consume ts (Finished r) = ([], StopIteration, Finished r)"
  by (subst consume.simps) (simp add: gen_next_def)

lemma consume_Suspended_Nil:
  "consume ts (Suspended s []) = ([], StopIteration, Finished (Inr (s\<lparr>vs_prev := vs s\<rparr>)))"
  by (subst consume.simps) (simp add: gen_next_def loop_head_def)

lemma consume_Suspended_Cons:
  "consume ts (Suspended s (iv # rest)) =
     (case snd (step (s\<lparr>vs_prev := vs s\<rparr>) iv) of
        Inl (e, s') \<Rightarrow> ([], Raise e, Finished (Inl (e, s')))
      | Inr s' \<Rightarrow> (case consume ts (Suspended s' rest) of
                     (ys, r) \<Rightarrow> ((iv, read_fields s' (solution_fields s')) # ys, r)))"
  by (subst consume.simps)
     (simp add: gen_next_def loop_head_def split: prod.splits sum.splits)

lemma consume_NotStarted:
  "consume ts (NotStarted s interval dt) =
     (case ts interval dt of
        Inl e \<Rightarrow> ([], Raise e, Finished (Inl (e, s)))
      | Inr [] \<Rightarrow> ([], StopIteration, Finished (Inr s))
      | Inr (iv # rest) \<Rightarrow>
          (case snd (step s iv) of
             Inl (e, s') \<Rightarrow> ([], Raise e, Finished (Inl (e, s')))
           | Inr s' \<Rightarrow> (case consume ts (Suspended s' rest) of
                          (ys, r) \<Rightarrow> ((iv, read_fields s' (solution_fields s')) # ys, r))))"
  by (subst consume.simps)
     (simp add: gen_next_def loop_head_def split: prod.splits sum.splits list.splits)

lemma consume_Suspended_ts: "consume ts (Suspended s ivs) = consume ts' (Suspended s ivs)"
  by (induction ivs arbitrary: s)
     (simp_all add: consume_Suspended_Nil consume_Suspended_Cons split: sum.splits prod.splits)

lemma consume_Suspended_failure:
  assumes "consume ts (Suspended s ivs) = (ys, StopIteration, Finished (Inr s1))"
    and "snd (step s1 bad) = Inl (e, sf)"
  shows "consume ts (Suspended s (ivs @ bad # rest)) = (ys, Raise e, Finished (Inl (e, sf)))"
  using assms
proof (induction ivs arbitrary: s ys)
  case Nil
  then show ?case by (simp add: consume_Suspended_Nil consume_Suspended_Cons)
next
  case (Cons iv ivs)
  then show ?case
    by (auto simp add: consume_Suspended_Cons split: sum.splits prod.splits)
qed

lemma nexts_Finished:
  "nexts (gen_next ts) n (Finished r) = (replicate n Stopped, Finished r)"
  by (induction n) (simp_all add: gen_next_def)

lemma create_ode_solver_calls:
  "CreateODESolver oc \<in> set (fst (create_ode_solver classes model params ode_params)) \<Longrightarrow>
     ode_I_s oc = (if apply_stimulus_current_to_pde params then None else Some (stimulus model))"
  by (auto simp: create_ode_solver_def Let_def run_raise_def split: if_splits)

lemma create_ode_solver_no_pde:
  "CreatePDESolver pc \<notin> set (fst (create_ode_solver classes model params ode_params))"
  by (auto simp: create_ode_solver_def Let_def run_raise_def split: if_splits)

lemma create_pde_solver_calls:
  "CreatePDESolver pc \<in> set (fst (create_pde_solver classes model params pde_params)) \<Longrightarrow>
     pde_I_s pc = (if apply_stimulus_current_to_pde params then Some (stimulus model) else None)
     \<and> pde_call_parameters pc = pde_params"
  by (auto simp: create_pde_solver_def Let_def run_raise_def split: if_splits)

lemma create_pde_solver_no_ode:
  "CreateODESolver oc \<notin> set (fst (create_pde_solver classes model params pde_params))"
  by (auto simp: create_pde_solver_def Let_def run_raise_def split: if_splits)

lemma create_ode_solver_success:
  "snd (create_ode_solver classes model params ode_params) = Inr x \<Longrightarrow>
     \<exists>oc. fst (create_ode_solver classes model params ode_params) = [CreateODESolver oc]"
  by (auto simp: create_ode_solver_def Let_def run_raise_def split: if_splits)

lemma create_pde_solver_success:
  "snd (create_pde_solver classes model params pde_params) = Inr x \<Longrightarrow>
     \<exists>pc. fst (create_pde_solver classes model params pde_params) = [CreatePDESolver pc]"
  by (auto simp: create_pde_solver_def Let_def run_raise_def split: if_splits)

lemma create_merger_calls: "fst (create_merger pde_params w) = []"
  by (auto simp: create_merger_def run_ret_def run_raise_def split: potential_field.splits)

lemma init_calls:
  "fst (init classes model params pde_params ode_params) =
     (if theta params \<noteq> pde_theta pde_params then []
      else fst (create_ode_solver classes model params ode_params)
           @ (case snd (create_ode_solver classes model params ode_params) of
                Inl e \<Rightarrow> []
              | Inr ode \<Rightarrow> fst (create_pde_solver classes model params pde_params)))"
  by (simp add: init_def fst_run_bind snd_run_bind run_raise_def run_ret_def create_merger_calls
      split: sum.splits)

lemma time_steps_tiles:
  "0 < dt \<Longrightarrow> t < T1 \<Longrightarrow>
     time_steps t T1 dt \<noteq> [] \<and> fst (hd (time_steps t T1 dt)) = t
     \<and> snd (last (time_steps t T1 dt)) = T1
     \<and> successively (\<lambda>a b. snd a = fst b) (time_steps t T1 dt)
     \<and> (\<forall>(a, b) \<in> set (time_steps t T1 dt). t \<le> a \<and> a < b \<and> b \<le> T1 \<and> b - a \<le> dt)"
proof (induction t T1 dt rule: time_steps.induct)
  case (1 t T1 dt)
  let ?t' = "min (t + dt) T1"
  from "1.prems" have unf: "time_steps t T1 dt = (t, ?t') # time_steps ?t' T1 dt"
    by (subst time_steps.simps) simp
  show ?case
  proof (cases "?t' < T1")
    case True
    with "1.IH" "1.prems" have IH:
      "time_steps ?t' T1 dt \<noteq> []" "fst (hd (time_steps ?t' T1 dt)) = ?t'"
      "snd (last (time_steps ?t' T1 dt)) = T1"
      "successively (\<lambda>a b. snd a = fst b) (time_steps ?t' T1 dt)"
      "\<forall>(a, b) \<in> set (time_steps ?t' T1 dt). ?t' \<le> a \<and> a < b \<and> b \<le> T1 \<and> b - a \<le> dt"
      by auto
    from IH(1) obtain x xs where xs: "time_steps ?t' T1 dt = x # xs"
      by (cases "time_steps ?t' T1 dt") auto
    from IH(2) xs have "fst x = ?t'" by simp
    with IH xs "1.prems" True show ?thesis
      unfolding unf by (auto simp: min_def split: if_splits)
  next
    case False
    then have "time_steps ?t' T1 dt = []"
      by (subst time_steps.simps) simp
    with False "1.prems" show ?thesis
      unfolding unf by (auto simp: min_def split: if_splits)
  qed
qed

lemma step_raises:
  "(ode_step (ode_solver self) (t0, t0 + theta (parameters self) * (t1 - t0)) (vs_prev self) = Inl e
      \<longrightarrow> step self (t0, t1)
            = ([ODEStep (t0, t0 + theta (parameters self) * (t1 - t0))],
               Inl (e, self\<lparr>vs := ode_left (ode_solver self)
                                    (t0, t0 + theta (parameters self) * (t1 - t0))
                                    (vs_prev self) (vs self)\<rparr>)))
   \<and> (ode_step (ode_solver self) (t0, t0 + theta (parameters self) * (t1 - t0)) (vs_prev self) = Inr a
      \<longrightarrow> pde_step (pde_solver self) (t0, t1) (v_part a) (vur self) = Inl e
      \<longrightarrow> step self (t0, t1)
            = ([ODEStep (t0, t0 + theta (parameters self) * (t1 - t0)), PDEStep (t0, t1)],
               Inl (e, self\<lparr>vs := a,
                            vur := pde_left (pde_solver self) (t0, t1) (v_part a) (vur self)\<rparr>)))
   \<and> (ode_step (ode_solver self) (t0, t0 + theta (parameters self) * (t1 - t0)) (vs_prev self) = Inr a
      \<longrightarrow> pde_step (pde_solver self) (t0, t1) (v_part a) (vur self) = Inr w
      \<longrightarrow> snd (merge (self\<lparr>vur := w\<rparr>) a) = Inr m
      \<longrightarrow> theta (parameters self) \<noteq> 1
      \<longrightarrow> ode_step (ode_solver self) (t0 + theta (parameters self) * (t1 - t0), t1) m = Inl e
      \<longrightarrow> step self (t0, t1)
            = ([ODEStep (t0, t0 + theta (parameters self) * (t1 - t0)), PDEStep (t0, t1),
                AssignPrevious, MergerAssign,
                ODEStep (t0 + theta (parameters self) * (t1 - t0), t1)],
               Inl (e, self\<lparr>vs_prev := m,
                            vs := ode_left (ode_solver self)
                                    (t0 + theta (parameters self) * (t1 - t0), t1) m a,
                            vur := w\<rparr>)))"
proof -
  have full: "step self (t0, t1) = (fst (step self (t0, t1)), snd (step self (t0, t1)))"
    by simp
  have 1: "step self (t0, t1)
            = ([ODEStep (t0, t0 + theta (parameters self) * (t1 - t0))],
               Inl (e, self\<lparr>vs := ode_left (ode_solver self)
                                    (t0, t0 + theta (parameters self) * (t1 - t0))
                                    (vs_prev self) (vs self)\<rparr>))"
    if "ode_step (ode_solver self) (t0, t0 + theta (parameters self) * (t1 - t0)) (vs_prev self) = Inl e"
    by (subst full, simp only: step_result step_calls) (insert that, simp)
  have 2: "step self (t0, t1)
            = ([ODEStep (t0, t0 + theta (parameters self) * (t1 - t0)), PDEStep (t0, t1)],
               Inl (e, self\<lparr>vs := a,
                            vur := pde_left (pde_solver self) (t0, t1) (v_part a) (vur self)\<rparr>))"
    if "ode_step (ode_solver self) (t0, t0 + theta (parameters self) * (t1 - t0)) (vs_prev self) = Inr a"
      "pde_step (pde_solver self) (t0, t1) (v_part a) (vur self) = Inl e"
    by (subst full, simp only: step_result step_calls) (insert that, simp)
  have 3: "step self (t0, t1)
            = ([ODEStep (t0, t0 + theta (parameters self) * (t1 - t0)), PDEStep (t0, t1),
                AssignPrevious, MergerAssign,
                ODEStep (t0 + theta (parameters self) * (t1 - t0), t1)],
               Inl (e, self\<lparr>vs_prev := m,
                            vs := ode_left (ode_solver self)
                                    (t0 + theta (parameters self) * (t1 - t0), t1) m a,
                            vur := w\<rparr>))"
    if "ode_step (ode_solver self) (t0, t0 + theta (parameters self) * (t1 - t0)) (vs_prev self) = Inr a"
      "pde_step (pde_solver self) (t0, t1) (v_part a) (vur self) = Inr w"
      "snd (merge (self\<lparr>vur := w\<rparr>) a) = Inr m"
      "theta (parameters self) \<noteq> 1"
      "ode_step (ode_solver self) (t0 + theta (parameters self) * (t1 - t0), t1) m = Inl e"
  proof -
    from that(3) have "merge (self\<lparr>vur := w\<rparr>) a = ([MergerAssign], Inr m)"
      using merge_result [OF that(3)] by simp
    with that show ?thesis
      by (subst full, simp only: step_result step_calls) simp
  qed
  from 1 2 3 show ?thesis by blast
qed

lemma consume_failure:
  assumes ts: "time_stepper interval dt = Inr (ivs @ bad # rest)"
    and before: "consume (\<lambda>i d. Inr ivs) (solve self interval dt)
                   = (ys, StopIteration, Finished (Inr s1))"
    and fails: "snd (step s1 bad) = Inl (e, sf)"
  shows "consume time_stepper (solve self interval dt) = (ys, Raise e, Finished (Inl (e, sf)))"
proof (cases ivs)
  case Nil
  with before have "s1 = self" "ys = []"
    by (simp_all add: solve_def consume_NotStarted)
  with ts Nil fails show ?thesis
    by (simp add: solve_def consume_NotStarted)
next
  case (Cons iv ivs')
  from before Cons obtain s' where s': "snd (step self iv) = Inr s'"
    by (cases "snd (step self iv)") (auto simp add: solve_def consume_NotStarted)
  obtain ys' r where c: "consume (\<lambda>i d. Inr ivs) (Suspended s' ivs') = (ys', r)"
    by (cases "consume (\<lambda>i d. Inr ivs) (Suspended s' ivs')") auto
  from before Cons s' c have ys: "ys = (iv, read_fields s' (solution_fields s')) # ys'"
    and r: "r = (StopIteration, Finished (Inr s1))"
    by (simp_all add: solve_def consume_NotStarted)
  from consume_Suspended_failure [OF c [unfolded r] fails, of rest]
  have "consume time_stepper (Suspended s' (ivs' @ bad # rest)) = (ys', Raise e, Finished (Inl (e, sf)))"
    using consume_Suspended_ts [of time_stepper s' "ivs' @ bad # rest" "\<lambda>i d. Inr ivs"]
    by simp
  with ts Cons s' ys show ?thesis
    by (simp add: solve_def consume_NotStarted)
qed

lemma step_keeps_parameters:
  "snd (step self iv) = Inr self' \<Longrightarrow> parameters self' = parameters self"
  by (cases iv) (auto simp: step_result split: sum.splits if_splits)

lemma step_strang_previous:
  "snd (step self iv) = Inr self' \<Longrightarrow> theta (parameters self) \<noteq> 1 \<Longrightarrow> vs_prev self' = vs self'"
  by (cases iv) (auto simp: step_result split: sum.splits if_splits)

lemma loop_head_strang:
  assumes th: "theta (parameters s) \<noteq> 1" and l: "loop_head s ivs = (es, out, g')"
  shows "case g' of NotStarted s' i d \<Rightarrow> theta (parameters s') \<noteq> 1
         | Suspended s' ivs' \<Rightarrow> theta (parameters s') \<noteq> 1 \<and> vs_prev s' = vs s'
         | Finished r \<Rightarrow> True"
proof (cases ivs)
  case Nil
  with l show ?thesis by (auto simp: loop_head_def)
next
  case (Cons iv rest)
  obtain es' r where st: "step s iv = (es', r)" by (cases "step s iv") auto
  show ?thesis
  proof (cases r)
    case (Inl x)
    with l Cons st show ?thesis by (cases x) (auto simp: loop_head_def)
  next
    case (Inr s')
    with st have ok: "snd (step s iv) = Inr s'" by simp
    from step_keeps_parameters [OF ok] step_strang_previous [OF ok th] th
    have "theta (parameters s') \<noteq> 1 \<and> vs_prev s' = vs s'" by simp
    with l Cons st Inr show ?thesis by (auto simp: loop_head_def)
  qed
qed

lemma nexts_single_assign_Finished:
  "nexts (gen_next_single_assign ts) n (Finished r) = (replicate n Stopped, Finished r)"
  by (induction n) (simp_all add: gen_next_single_assign_def)

lemma nexts_single_assign:
  assumes "case g of NotStarted s i d \<Rightarrow> theta (parameters s) \<noteq> 1
         | Suspended s ivs \<Rightarrow> theta (parameters s) \<noteq> 1 \<and> vs_prev s = vs s
         | Finished r \<Rightarrow> True"
  shows "nexts (gen_next_single_assign ts) n g = nexts (gen_next ts) n g"
  using assms
proof (induction n arbitrary: g)
  case 0
  show ?case by simp
next
  case (Suc n)
  show ?case
  proof (cases g)
    case (NotStarted s i d)
    show ?thesis
    proof (cases "ts i d")
      case (Inl e)
      with NotStarted have "gen_next ts g = ([], Raise e, Finished (Inl (e, s)))"
        and "gen_next_single_assign ts g = ([], Raise e, Finished (Inl (e, s)))"
        by (simp_all add: gen_next_def gen_next_single_assign_def)
      then show ?thesis
        by (simp add: nexts_Finished nexts_single_assign_Finished)
    next
      case (Inr ivs)
      obtain es out g' where l: "loop_head s ivs = (es, out, g')"
        by (cases "loop_head s ivs") auto
      from Suc.prems NotStarted have "theta (parameters s) \<noteq> 1" by simp
      from loop_head_strang [OF this l]
      have IH: "nexts (gen_next_single_assign ts) n g' = nexts (gen_next ts) n g'"
        by (rule Suc.IH)
      from NotStarted Inr l have "gen_next ts g = (es, out, g')"
        and "gen_next_single_assign ts g = (es, out, g')"
        by (simp_all add: gen_next_def gen_next_single_assign_def)
      with IH show ?thesis by simp
    qed
  next
    case (Suspended s ivs)
    with Suc.prems have th: "theta (parameters s) \<noteq> 1" and eq: "s\<lparr>vs_prev := vs s\<rparr> = s"
      by simp_all
    obtain es out g' where l: "loop_head s ivs = (es, out, g')"
      by (cases "loop_head s ivs") auto
    from loop_head_strang [OF th l]
    have IH: "nexts (gen_next_single_assign ts) n g' = nexts (gen_next ts) n g'"
      by (rule Suc.IH)
    from Suspended l eq have "gen_next ts g = (AssignPrevious # es, out, g')"
      and "gen_next_single_assign ts g = (es, out, g')"
      by (simp_all add: gen_next_def gen_next_single_assign_def)
    with IH show ?thesis by simp
  next
    case (Finished r)
    then show ?thesis
      by (simp only: nexts_Finished nexts_single_assign_Finished)
  qed
qed

lemmas example_defs = example_solver_def example_ode_def example_pde_def failing_pde_def
  merge_def bidomain_names_def

lemmas init_defs = init_def create_ode_solver_def create_pde_solver_def create_merger_def
  run_bind_def run_ret_def run_raise_def Let_def example_classes_def example_model_def
  example_parameters_def example_pde_parameters_def example_ode_parameters_def
  example_ode_def example_pde_def bidomain_names_def

section \<open>The state merger\<close>

text \<open>
  Claim C3. For every composite state \<open>target\<close>, \<^verbatim>\<open>merge(target)\<close> overwrites only the
  transmembrane potential \<^verbatim>\<open>target.sub(0)\<close>, with the potential of the PDE solver
  (\<^verbatim>\<open>vur.sub(0)\<close> for the bidomain solvers, \<^verbatim>\<open>vur\<close> itself for the monodomain solvers);
  every other sub-component of \<open>target\<close> is as it was before the call.
\<close>

theorem merge_frame:
  "(pde_solver_name (pde_parameters self) \<in> set bidomain_names \<longrightarrow> vur self = Mixed x ur \<longrightarrow>
      merge self target = ([MergerAssign], Inr (target\<lparr>v_part := x\<rparr>)))
   \<and> (pde_solver_name (pde_parameters self) \<notin> set bidomain_names \<longrightarrow> vur self = Scalar x \<longrightarrow>
      merge self target = ([MergerAssign], Inr (target\<lparr>v_part := x\<rparr>)))
   \<and> (\<forall>m. snd (merge self target) = Inr m \<longrightarrow>
        v_part m = pde_v (vur self) \<and> s_part m = s_part target
        \<and> composite_state.more m = composite_state.more target)"
  by (auto simp: merge_def run_raise_def split: if_splits potential_field.splits)

theorem merge_frame_witness:
  "merge (example_solver 1 example_pde) \<lparr>v_part = 3, s_part = [4, 5]\<rparr>
     = ([MergerAssign], Inr \<lparr>v_part = 0, s_part = [4, 5]\<rparr>)
   \<and> merge ((example_solver 1 example_pde)\<lparr>vur := Scalar 9,
          pde_parameters := \<lparr>pde_theta = 1, pde_solver_name = ''MonodomainSolver''\<rparr>\<rparr>)
        \<lparr>v_part = 3, s_part = [4, 5]\<rparr>
     = ([MergerAssign], Inr \<lparr>v_part = 9, s_part = [4, 5]\<rparr>)
   \<and> s_part (projr (snd (merge (example_solver 1 example_pde) \<lparr>v_part = 3, s_part = [4, 5]\<rparr>)))
     = [4, 5]"
  using merge_frame [of "example_solver 1 example_pde" 0 "[0]" "\<lparr>v_part = 3, s_part = [4, 5]\<rparr>"]
    merge_frame [of "(example_solver 1 example_pde)\<lparr>vur := Scalar 9,
          pde_parameters := \<lparr>pde_theta = 1, pde_solver_name = ''MonodomainSolver''\<rparr>\<rparr>"
      9 "[]" "\<lparr>v_part = 3, s_part = [4, 5]\<rparr>"]
  by (simp add: example_solver_def example_pde_def bidomain_names_def)

text \<open>
  Claim C4. \<^verbatim>\<open>merge\<close> is idempotent for an unchanged PDE output: two calls in a row end
  as one call does, and the second call leaves the target as the first call left it.
\<close>

theorem merge_idempotent:
  "snd (run_bind (merge self target) (merge self)) = snd (merge self target)
   \<and> (\<forall>m. snd (merge self target) = Inr m \<longrightarrow> snd (merge self m) = Inr m)"
  by (auto simp: merge_def run_raise_def run_bind_def split: if_splits potential_field.splits)

theorem merge_idempotent_witness:
  "snd (merge (example_solver 1 example_pde) \<lparr>v_part = 3, s_part = [4, 5]\<rparr>)
     = Inr \<lparr>v_part = 0, s_part = [4, 5]\<rparr>
   \<and> snd (merge (example_solver 1 example_pde) \<lparr>v_part = 0, s_part = [4, 5]\<rparr>)
     = Inr \<lparr>v_part = 0, s_part = [4, 5]\<rparr>"
proof -
  have h: "snd (merge (example_solver 1 example_pde) \<lparr>v_part = 3, s_part = [4, 5]\<rparr>)
     = Inr \<lparr>v_part = 0, s_part = [4, 5]\<rparr>"
    by (simp add: merge_def example_solver_def example_pde_def bidomain_names_def)
  from merge_idempotent [of "example_solver 1 example_pde" "\<lparr>v_part = 3, s_part = [4, 5]\<rparr>"] h
  show ?thesis by simp
qed

section \<open>One time step\<close>

text \<open>
  Claim C1. A step over \<open>(t0, t1)\<close> with \<open>dt = t1 - t0\<close> and weight \<open>theta\<close> makes these
  calls, in this order and no others: the tentative ODE step over \<open>(t0, t0 + theta * dt)\<close>,
  which reads the previous state and gives the tentative current state \<open>a\<close>; the PDE step
  over \<open>(t0, t1)\<close>, which reads the potential of \<open>a\<close> and gives \<open>w\<close>; then, for
  \<open>theta = 1\<close>, the merge of the PDE potential into the current state, which ends the
  step; otherwise previous := current, the merge into the previous state, the ODE step
  over \<open>(t0 + theta * dt, t1)\<close> and previous := current again. A step that raises has made
  an initial part of that sequence.
\<close>

theorem step_sequence:
  "prefix (fst (step self (t0, t1)))
     (if theta (parameters self) = 1 then
        [ODEStep (t0, t0 + theta (parameters self) * (t1 - t0)), PDEStep (t0, t1), MergerAssign]
      else
        [ODEStep (t0, t0 + theta (parameters self) * (t1 - t0)), PDEStep (t0, t1),
         AssignPrevious, MergerAssign,
         ODEStep (t0 + theta (parameters self) * (t1 - t0), t1), AssignPrevious])
   \<and> (ode_step (ode_solver self) (t0, t0 + theta (parameters self) * (t1 - t0)) (vs_prev self) = Inr a
        \<longrightarrow> pde_step (pde_solver self) (t0, t1) (v_part a) (vur self) = Inr w
        \<longrightarrow> snd (merge (self\<lparr>vur := w\<rparr>) a) = Inr m
        \<longrightarrow> m = a\<lparr>v_part := pde_v w\<rparr>
          \<and> (theta (parameters self) = 1 \<longrightarrow>
               step self (t0, t1)
                 = ([ODEStep (t0, t0 + theta (parameters self) * (t1 - t0)), PDEStep (t0, t1),
                     MergerAssign],
                    Inr (self\<lparr>vs := m, vur := w\<rparr>)))
          \<and> (theta (parameters self) \<noteq> 1 \<longrightarrow>
               ode_step (ode_solver self) (t0 + theta (parameters self) * (t1 - t0), t1) m = Inr c \<longrightarrow>
               step self (t0, t1)
                 = ([ODEStep (t0, t0 + theta (parameters self) * (t1 - t0)), PDEStep (t0, t1),
                     AssignPrevious, MergerAssign,
                     ODEStep (t0 + theta (parameters self) * (t1 - t0), t1), AssignPrevious],
                    Inr (self\<lparr>vs_prev := c, vs := c, vur := w\<rparr>))))"
proof -
  have rest: "m = a\<lparr>v_part := pde_v w\<rparr>
          \<and> (theta (parameters self) = 1 \<longrightarrow>
               step self (t0, t1)
                 = ([ODEStep (t0, t0 + theta (parameters self) * (t1 - t0)), PDEStep (t0, t1),
                     MergerAssign],
                    Inr (self\<lparr>vs := m, vur := w\<rparr>)))
          \<and> (theta (parameters self) \<noteq> 1 \<longrightarrow>
               ode_step (ode_solver self) (t0 + theta (parameters self) * (t1 - t0), t1) m = Inr c \<longrightarrow>
               step self (t0, t1)
                 = ([ODEStep (t0, t0 + theta (parameters self) * (t1 - t0)), PDEStep (t0, t1),
                     AssignPrevious, MergerAssign,
                     ODEStep (t0 + theta (parameters self) * (t1 - t0), t1), AssignPrevious],
                    Inr (self\<lparr>vs_prev := c, vs := c, vur := w\<rparr>)))"
    if tent: "ode_step (ode_solver self) (t0, t0 + theta (parameters self) * (t1 - t0)) (vs_prev self) = Inr a"
      and pde: "pde_step (pde_solver self) (t0, t1) (v_part a) (vur self) = Inr w"
      and mrg: "snd (merge (self\<lparr>vur := w\<rparr>) a) = Inr m"
  proof -
    from mrg have m: "merge (self\<lparr>vur := w\<rparr>) a = ([MergerAssign], Inr (a\<lparr>v_part := pde_v w\<rparr>))"
      by (auto dest: merge_result)
    with mrg have eq: "m = a\<lparr>v_part := pde_v w\<rparr>" by simp
    have full: "step self (t0, t1) = (fst (step self (t0, t1)), snd (step self (t0, t1)))"
      by simp
    have g: "theta (parameters self) = 1 \<Longrightarrow> step self (t0, t1)
           = ([ODEStep (t0, t0 + theta (parameters self) * (t1 - t0)), PDEStep (t0, t1), MergerAssign],
              Inr (self\<lparr>vs := m, vur := w\<rparr>))"
      by (subst full, simp only: step_result step_calls) (insert tent pde m eq, simp)
    have s: "theta (parameters self) \<noteq> 1 \<Longrightarrow>
         ode_step (ode_solver self) (t0 + theta (parameters self) * (t1 - t0), t1) m = Inr c \<Longrightarrow>
         step self (t0, t1)
           = ([ODEStep (t0, t0 + theta (parameters self) * (t1 - t0)), PDEStep (t0, t1),
               AssignPrevious, MergerAssign,
               ODEStep (t0 + theta (parameters self) * (t1 - t0), t1), AssignPrevious],
              Inr (self\<lparr>vs_prev := c, vs := c, vur := w\<rparr>))"
      by (subst full, simp only: step_result step_calls) (insert tent pde m eq, simp)
    from eq g s show ?thesis by blast
  qed
  with step_calls_prefix [of self t0 t1] show ?thesis by blast
qed

theorem step_sequence_witness:
  "step (example_solver 1 example_pde) (0, 1 / 10)
     = ([ODEStep (0, 1 / 10), PDEStep (0, 1 / 10), MergerAssign],
        Inr ((example_solver 1 example_pde)
               \<lparr>vs := \<lparr>v_part = 8, s_part = [5]\<rparr>, vur := Mixed 8 [7]\<rparr>))
   \<and> step (example_solver (1 / 2) example_pde) (0, 1 / 5)
     = ([ODEStep (0, 1 / 10), PDEStep (0, 1 / 5), AssignPrevious, MergerAssign,
         ODEStep (1 / 10, 1 / 5), AssignPrevious],
        Inr ((example_solver (1 / 2) example_pde)
               \<lparr>vs_prev := \<lparr>v_part = 9, s_part = [6]\<rparr>, vs := \<lparr>v_part = 9, s_part = [6]\<rparr>,
                vur := Mixed 8 [7]\<rparr>))"
  using step_sequence [of "example_solver 1 example_pde" 0 "1 / 10"
      "\<lparr>v_part = 4, s_part = [5]\<rparr>" "Mixed 8 [7]" "\<lparr>v_part = 8, s_part = [5]\<rparr>"]
    step_sequence [of "example_solver (1 / 2) example_pde" 0 "1 / 5"
      "\<lparr>v_part = 4, s_part = [5]\<rparr>" "Mixed 8 [7]" "\<lparr>v_part = 8, s_part = [5]\<rparr>"
      "\<lparr>v_part = 9, s_part = [6]\<rparr>"]
  by (simp add: example_defs)

text \<open>
  Claim C2. After a step over \<open>(t0, t1)\<close> that returns, the current state and the PDE
  output have been advanced to \<open>t1\<close>: \<^verbatim>\<open>vur\<close> is what the PDE step over \<open>(t0, t1)\<close>
  gave, and \<^verbatim>\<open>vs\<close> is, for \<open>theta = 1\<close>, what the ODE step over \<open>(t0, t1)\<close> gave from
  the previous state, with the PDE potential merged in, and otherwise what the ODE step
  over the interval that ends at \<open>t1\<close> gave. For \<open>theta = 1\<close> the potential of \<^verbatim>\<open>vs\<close> is
  the potential of \<^verbatim>\<open>vur\<close>; for \<open>theta < 1\<close> there are sub-solvers for which the two
  differ.
\<close>

theorem step_exit_state:
  assumes ok: "snd (step self (t0, t1)) = Inr self'"
  shows "(theta (parameters self) = 1 \<longrightarrow>
           (\<exists>a. ode_step (ode_solver self) (t0, t1) (vs_prev self) = Inr a
              \<and> pde_step (pde_solver self) (t0, t1) (v_part a) (vur self) = Inr (vur self')
              \<and> vs self' = a\<lparr>v_part := pde_v (vur self')\<rparr>)
           \<and> v_part (vs self') = pde_v (vur self'))
       \<and> (theta (parameters self) \<noteq> 1 \<longrightarrow>
           (\<exists>a. ode_step (ode_solver self) (t0, t0 + theta (parameters self) * (t1 - t0))
                   (vs_prev self) = Inr a
              \<and> pde_step (pde_solver self) (t0, t1) (v_part a) (vur self) = Inr (vur self')
              \<and> ode_step (ode_solver self) (t0 + theta (parameters self) * (t1 - t0), t1)
                   (a\<lparr>v_part := pde_v (vur self')\<rparr>) = Inr (vs self')))
       \<and> (\<exists>(s :: int splitting_solver) s'. theta (parameters s) < 1
             \<and> snd (step s (0, 1 / 5)) = Inr s'
             \<and> v_part (vs s') \<noteq> pde_v (vur s'))"
proof -
  obtain a where a: "ode_step (ode_solver self) (t0, t0 + theta (parameters self) * (t1 - t0))
                   (vs_prev self) = Inr a"
    by (cases "ode_step (ode_solver self) (t0, t0 + theta (parameters self) * (t1 - t0)) (vs_prev self)")
       (insert ok, simp_all add: step_result)
  obtain w where w: "pde_step (pde_solver self) (t0, t1) (v_part a) (vur self) = Inr w"
    by (cases "pde_step (pde_solver self) (t0, t1) (v_part a) (vur self)")
       (insert ok a, simp_all add: step_result)
  obtain m where m: "snd (merge (self\<lparr>vur := w\<rparr>) a) = Inr m"
    by (cases "snd (merge (self\<lparr>vur := w\<rparr>) a)") (insert ok a w, simp_all add: step_result)
  from merge_result [OF m] m have meq: "m = a\<lparr>v_part := pde_v w\<rparr>" by simp
  have g: "self' = self\<lparr>vs := m, vur := w\<rparr>" if "theta (parameters self) = 1"
    using ok a w m that by (simp add: step_result)
  have s: "\<exists>c. ode_step (ode_solver self) (t0 + theta (parameters self) * (t1 - t0), t1) m = Inr c
               \<and> self' = self\<lparr>vs_prev := c, vs := c, vur := w\<rparr>"
    if "theta (parameters self) \<noteq> 1"
    by (cases "ode_step (ode_solver self) (t0 + theta (parameters self) * (t1 - t0), t1) m")
       (insert ok a w m that, simp_all add: step_result)
  have ex: "\<exists>(s :: int splitting_solver) s'. theta (parameters s) < 1
             \<and> snd (step s (0, 1 / 5)) = Inr s'
             \<and> v_part (vs s') \<noteq> pde_v (vur s')"
  proof (intro exI conjI)
    show "theta (parameters (example_solver (1 / 2) example_pde)) < 1"
      by (simp add: example_solver_def)
    show "snd (step (example_solver (1 / 2) example_pde) (0, 1 / 5))
            = Inr ((example_solver (1 / 2) example_pde)
                    \<lparr>vs_prev := \<lparr>v_part = 9, s_part = [6]\<rparr>, vs := \<lparr>v_part = 9, s_part = [6]\<rparr>,
                     vur := Mixed 8 [7]\<rparr>)"
      by (simp only: step_result)
         (simp add: example_solver_def example_ode_def example_pde_def merge_def bidomain_names_def)
    show "v_part (vs ((example_solver (1 / 2) example_pde)
                    \<lparr>vs_prev := \<lparr>v_part = 9, s_part = [6]\<rparr>, vs := \<lparr>v_part = 9, s_part = [6]\<rparr>,
                     vur := Mixed 8 [7]\<rparr>))
          \<noteq> pde_v (vur ((example_solver (1 / 2) example_pde)
                    \<lparr>vs_prev := \<lparr>v_part = 9, s_part = [6]\<rparr>, vs := \<lparr>v_part = 9, s_part = [6]\<rparr>,
                     vur := Mixed 8 [7]\<rparr>))"
      by simp
  qed
  have G: "theta (parameters self) = 1 \<Longrightarrow>
           (\<exists>a. ode_step (ode_solver self) (t0, t1) (vs_prev self) = Inr a
              \<and> pde_step (pde_solver self) (t0, t1) (v_part a) (vur self) = Inr (vur self')
              \<and> vs self' = a\<lparr>v_part := pde_v (vur self')\<rparr>)
           \<and> v_part (vs self') = pde_v (vur self')"
    using a w meq g by auto
  have S: "theta (parameters self) \<noteq> 1 \<Longrightarrow>
           (\<exists>a. ode_step (ode_solver self) (t0, t0 + theta (parameters self) * (t1 - t0))
                   (vs_prev self) = Inr a
              \<and> pde_step (pde_solver self) (t0, t1) (v_part a) (vur self) = Inr (vur self')
              \<and> ode_step (ode_solver self) (t0 + theta (parameters self) * (t1 - t0), t1)
                   (a\<lparr>v_part := pde_v (vur self')\<rparr>) = Inr (vs self'))"
    using a w meq s by auto
  from G S ex show ?thesis by blast
qed

theorem step_exit_state_witness:
  "snd (step (example_solver 1 example_pde) (0, 1 / 10))
     = Inr ((example_solver 1 example_pde)\<lparr>vs := \<lparr>v_part = 8, s_part = [5]\<rparr>, vur := Mixed 8 [7]\<rparr>)
   \<and> v_part (vs ((example_solver 1 example_pde)
                    \<lparr>vs := \<lparr>v_part = 8, s_part = [5]\<rparr>, vur := Mixed 8 [7]\<rparr>))
     = pde_v (vur ((example_solver 1 example_pde)
                    \<lparr>vs := \<lparr>v_part = 8, s_part = [5]\<rparr>, vur := Mixed 8 [7]\<rparr>))"
proof -
  have h: "snd (step (example_solver 1 example_pde) (0, 1 / 10))
     = Inr ((example_solver 1 example_pde)\<lparr>vs := \<lparr>v_part = 8, s_part = [5]\<rparr>, vur := Mixed 8 [7]\<rparr>)"
    by (simp only: step_result) (simp add: example_defs)
  from step_exit_state [OF h] h show ?thesis
    by (simp add: example_solver_def)
qed

section \<open>Construction\<close>

text \<open>
  Claim C5. Exactly one of the two sub-solvers is constructed with the model's stimulus:
  with \<^verbatim>\<open>apply_stimulus_current_to_pde\<close> the PDE solver gets the stimulus and the ODE
  solver gets \<^verbatim>\<open>None\<close>, without it the ODE solver gets the stimulus and the PDE solver
  gets \<^verbatim>\<open>None\<close>; never both and never neither. A construction that succeeds has created
  one ODE solver and then one PDE solver.
\<close>

theorem stimulus_routing:
  "(CreateODESolver oc \<in> set (fst (init classes model params pde_params ode_params)) \<longrightarrow>
     ode_I_s oc = (if apply_stimulus_current_to_pde params then None else Some (stimulus model)))
   \<and> (CreatePDESolver pc \<in> set (fst (init classes model params pde_params ode_params)) \<longrightarrow>
     pde_I_s pc = (if apply_stimulus_current_to_pde params then Some (stimulus model) else None))
   \<and> (CreateODESolver oc \<in> set (fst (init classes model params pde_params ode_params)) \<longrightarrow>
      CreatePDESolver pc \<in> set (fst (init classes model params pde_params ode_params)) \<longrightarrow>
        (ode_I_s oc = None) \<noteq> (pde_I_s pc = None))
   \<and> (\<forall>self. snd (init classes model params pde_params ode_params) = Inr self \<longrightarrow>
        (\<exists>oc pc. fst (init classes model params pde_params ode_params)
                   = [CreateODESolver oc, CreatePDESolver pc]))"
proof -
  have 1: "ode_I_s oc = (if apply_stimulus_current_to_pde params then None else Some (stimulus model))"
    if "CreateODESolver oc \<in> set (fst (init classes model params pde_params ode_params))"
    using that create_ode_solver_calls [of oc classes model params ode_params]
      create_pde_solver_no_ode [of oc classes model params pde_params]
    by (auto simp: init_calls split: if_splits sum.splits)
  have 2: "pde_I_s pc = (if apply_stimulus_current_to_pde params then Some (stimulus model) else None)"
    if "CreatePDESolver pc \<in> set (fst (init classes model params pde_params ode_params))"
    using that create_pde_solver_calls [of pc classes model params pde_params]
      create_ode_solver_no_pde [of pc classes model params ode_params]
    by (auto simp: init_calls split: if_splits sum.splits)
  have 3: "\<exists>oc pc. fst (init classes model params pde_params ode_params)
                   = [CreateODESolver oc, CreatePDESolver pc]"
    if "snd (init classes model params pde_params ode_params) = Inr self" for self
  proof -
    from that obtain ode pde where
      o: "snd (create_ode_solver classes model params ode_params) = Inr ode" and
      p: "snd (create_pde_solver classes model params pde_params) = Inr pde" and
      t: "theta params = pde_theta pde_params"
      by (auto simp: init_def snd_run_bind run_raise_def split: if_splits sum.splits)
    from create_ode_solver_success [OF o] create_pde_solver_success [OF p] o t
    show ?thesis by (auto simp: init_calls)
  qed
  from 1 2 3 show ?thesis by (auto split: if_splits)
qed

theorem stimulus_routing_witness:
  "fst (init example_classes example_model (example_parameters 1 False)
          (example_pde_parameters 1) example_ode_parameters)
     = [CreateODESolver \<lparr>ode_class = ''CardiacODESolver'', ode_I_s = Some 100,
                          ode_call_parameters = example_ode_parameters\<rparr>,
        CreatePDESolver \<lparr>pde_class = ''BidomainSolver'', pde_I_s = None, pde_I_a = Some 5,
                          pde_ect_current = Some 6,
                          pde_call_parameters = example_pde_parameters 1\<rparr>]
   \<and> fst (init example_classes example_model (example_parameters 1 True)
          (example_pde_parameters 1) example_ode_parameters)
     = [CreateODESolver \<lparr>ode_class = ''CardiacODESolver'', ode_I_s = None,
                          ode_call_parameters = example_ode_parameters\<rparr>,
        CreatePDESolver \<lparr>pde_class = ''BidomainSolver'', pde_I_s = Some 100, pde_I_a = Some 5,
                          pde_ect_current = Some 6,
                          pde_call_parameters = example_pde_parameters 1\<rparr>]"
  using stimulus_routing [of
      "\<lparr>ode_class = ''CardiacODESolver'', ode_I_s = Some 100,
        ode_call_parameters = example_ode_parameters\<rparr>"
      example_classes example_model "example_parameters 1 False"
      "example_pde_parameters 1" example_ode_parameters
      "\<lparr>pde_class = ''BidomainSolver'', pde_I_s = None, pde_I_a = Some 5,
        pde_ect_current = Some 6, pde_call_parameters = example_pde_parameters 1\<rparr>"]
    stimulus_routing [of
      "\<lparr>ode_class = ''CardiacODESolver'', ode_I_s = None,
        ode_call_parameters = example_ode_parameters\<rparr>"
      example_classes example_model "example_parameters 1 True"
      "example_pde_parameters 1" example_ode_parameters
      "\<lparr>pde_class = ''BidomainSolver'', pde_I_s = Some 100, pde_I_a = Some 5,
        pde_ect_current = Some 6, pde_call_parameters = example_pde_parameters 1\<rparr>"]
  by (simp add: init_defs)

text \<open>
  Claim C9. A solver whose \<^verbatim>\<open>parameters.theta\<close> differs from \<^verbatim>\<open>pde_parameters.theta\<close>
  is not constructed: the assertion fails, with its message, before any sub-solver is
  created. With equal values the assertion does not fail, and a solver that has been
  constructed has the PDE solver created with the theta that \<^verbatim>\<open>step\<close> uses.
\<close>

theorem theta_consistency:
  "(theta params \<noteq> pde_theta pde_params \<longrightarrow>
      init classes model params pde_params ode_params
        = ([], Inl (AssertionError ''Got two different values for theta.'')))
   \<and> (theta params = pde_theta pde_params \<longrightarrow>
      init classes model params pde_params ode_params
        \<noteq> ([], Inl (AssertionError ''Got two different values for theta.'')))
   \<and> (\<forall>self. snd (init classes model params pde_params ode_params) = Inr self \<longrightarrow>
        theta (parameters self) = pde_theta (pde_parameters self)
        \<and> (\<exists>es pc. fst (init classes model params pde_params ode_params) = es @ [CreatePDESolver pc]
             \<and> pde_theta (pde_call_parameters pc) = theta (parameters self)))"
proof -
  have 1: "theta params \<noteq> pde_theta pde_params \<Longrightarrow>
      init classes model params pde_params ode_params
        = ([], Inl (AssertionError ''Got two different values for theta.''))"
    by (simp add: init_def run_raise_def)
  have 2: "init classes model params pde_params ode_params
        \<noteq> ([], Inl (AssertionError ''Got two different values for theta.''))"
    if t: "theta params = pde_theta pde_params"
  proof
    assume a: "init classes model params pde_params ode_params
        = ([], Inl (AssertionError ''Got two different values for theta.''))"
    then have "fst (init classes model params pde_params ode_params) = []"
      and s: "snd (init classes model params pde_params ode_params)
                = Inl (AssertionError ''Got two different values for theta.'')"
      by simp_all
    then have "fst (create_ode_solver classes model params ode_params) = []"
      using t by (simp add: init_calls)
    then have "create_ode_solver classes model params ode_params
                 = ([], Inl (UnboundLocalError ''solver_class''))"
      by (auto simp: create_ode_solver_def Let_def run_raise_def split: if_splits)
    then have "snd (init classes model params pde_params ode_params)
                 = Inl (UnboundLocalError ''solver_class'')"
      using t by (simp add: init_def snd_run_bind)
    with s show False by simp
  qed
  have 3: "theta (parameters self) = pde_theta (pde_parameters self)
        \<and> (\<exists>es pc. fst (init classes model params pde_params ode_params) = es @ [CreatePDESolver pc]
             \<and> pde_theta (pde_call_parameters pc) = theta (parameters self))"
    if "snd (init classes model params pde_params ode_params) = Inr self" for self
  proof -
    from that obtain ode pde where
      o: "snd (create_ode_solver classes model params ode_params) = Inr ode" and
      p: "snd (create_pde_solver classes model params pde_params) = Inr pde" and
      t: "theta params = pde_theta pde_params" and
      s: "parameters self = params" "pde_parameters self = pde_params"
      by (auto simp: init_def snd_run_bind run_raise_def run_ret_def split: if_splits sum.splits)
    from create_pde_solver_success [OF p] obtain pc where
      pc: "fst (create_pde_solver classes model params pde_params) = [CreatePDESolver pc]" by blast
    then have "pde_call_parameters pc = pde_params"
      using create_pde_solver_calls [of pc classes model params pde_params] by simp
    with pc o t s show ?thesis by (simp add: init_calls)
  qed
  from 1 2 3 show ?thesis by blast
qed

theorem theta_consistency_witness:
  "init example_classes example_model (example_parameters (1 / 2) False)
          (example_pde_parameters 1) example_ode_parameters
     = ([], Inl (AssertionError ''Got two different values for theta.''))
   \<and> snd (init example_classes example_model (example_parameters (1 / 2) False)
          (example_pde_parameters (1 / 2)) example_ode_parameters)
     = Inr \<lparr> parameters = example_parameters (1 / 2) False,
             pde_parameters = example_pde_parameters (1 / 2),
             ode_parameters = example_ode_parameters,
             ode_solver = example_ode, pde_solver = example_pde,
             vs_prev = \<lparr>v_part = 3, s_part = [4]\<rparr>, vs = \<lparr>v_part = 0, s_part = [0]\<rparr>,
             vur = Mixed 0 [0] \<rparr>
   \<and> theta (example_parameters (1 / 2) False) = pde_theta (example_pde_parameters (1 / 2))"
proof -
  let ?S = "\<lparr> parameters = example_parameters (1 / 2) False,
             pde_parameters = example_pde_parameters (1 / 2),
             ode_parameters = example_ode_parameters,
             ode_solver = example_ode, pde_solver = example_pde,
             vs_prev = \<lparr>v_part = 3, s_part = [4]\<rparr>, vs = \<lparr>v_part = 0, s_part = [0]\<rparr>,
             vur = Mixed 0 [0] \<rparr>"
  have ne: "theta (example_parameters (1 / 2) False) \<noteq> pde_theta (example_pde_parameters 1)"
    by (simp add: example_parameters_def example_pde_parameters_def)
  have ok: "snd (init example_classes example_model (example_parameters (1 / 2) False)
          (example_pde_parameters (1 / 2)) example_ode_parameters) = Inr ?S"
    by (simp add: init_defs)
  from theta_consistency [of "example_parameters (1 / 2) False" "example_pde_parameters 1"
      example_classes example_model example_ode_parameters] ne
  have a: "init example_classes example_model (example_parameters (1 / 2) False)
          (example_pde_parameters 1) example_ode_parameters
     = ([], Inl (AssertionError ''Got two different values for theta.''))"
    by blast
  from theta_consistency [of "example_parameters (1 / 2) False" "example_pde_parameters (1 / 2)"
      example_classes example_model example_ode_parameters] ok
  have "theta (parameters ?S) = pde_theta (pde_parameters ?S)"
    by blast
  then have b: "theta (example_parameters (1 / 2) False) = pde_theta (example_pde_parameters (1 / 2))"
    by simp
  from a ok b show ?thesis by blast
qed

section \<open>The generator\<close>

text \<open>
  Claim C7, as amended. When the ODE or the PDE sub-step of a time step raises, the step
  raises the same error having made no call after the one that failed (no retry, no
  fallback); the error comes out of the generator; the generator yields nothing more
  (every later \<^verbatim>\<open>next()\<close> stops). What the yielded objects held at each \<^verbatim>\<open>yield\<close> before
  the failure is what a run over the intervals before the failing one gives. The objects
  are the solver's own, and after the failure they hold what the failing step has left
  in them: when the PDE step raises, \<^verbatim>\<open>vs\<close> holds the tentative result of the ODE step.
  \<open>s1\<close> is the solver at the start of the failing step, \<open>sf\<close> the solver after it.
\<close>

theorem failure_propagates:
  assumes ts: "time_stepper interval dt = Inr (ivs @ (t0, t1) # rest)"
    and before: "consume (\<lambda>i d. Inr ivs) (solve self interval dt)
                   = (ys, StopIteration, Finished (Inr s1))"
    and raises:
      "ode_step (ode_solver s1) (t0, t0 + theta (parameters s1) * (t1 - t0)) (vs_prev s1) = Inl e
       \<or> (\<exists>a. ode_step (ode_solver s1) (t0, t0 + theta (parameters s1) * (t1 - t0)) (vs_prev s1) = Inr a
              \<and> pde_step (pde_solver s1) (t0, t1) (v_part a) (vur s1) = Inl e)
       \<or> (\<exists>a w m. ode_step (ode_solver s1) (t0, t0 + theta (parameters s1) * (t1 - t0)) (vs_prev s1) = Inr a
              \<and> pde_step (pde_solver s1) (t0, t1) (v_part a) (vur s1) = Inr w
              \<and> snd (merge (s1\<lparr>vur := w\<rparr>) a) = Inr m
              \<and> theta (parameters s1) \<noteq> 1
              \<and> ode_step (ode_solver s1) (t0 + theta (parameters s1) * (t1 - t0), t1) m = Inl e)"
  shows "\<exists>sf. snd (step s1 (t0, t1)) = Inl (e, sf)
       \<and> fst (step s1 (t0, t1)) \<in>
           {[ODEStep (t0, t0 + theta (parameters s1) * (t1 - t0))],
            [ODEStep (t0, t0 + theta (parameters s1) * (t1 - t0)), PDEStep (t0, t1)],
            [ODEStep (t0, t0 + theta (parameters s1) * (t1 - t0)), PDEStep (t0, t1),
             AssignPrevious, MergerAssign,
             ODEStep (t0 + theta (parameters s1) * (t1 - t0), t1)]}
       \<and> consume time_stepper (solve self interval dt) = (ys, Raise e, Finished (Inl (e, sf)))
       \<and> (\<forall>n. nexts (gen_next time_stepper) n (Finished (Inl (e, sf)))
              = (replicate n Stopped, Finished (Inl (e, sf))))
       \<and> held (Finished (Inl (e, sf)))
           = (Composite (vs_prev sf), Composite (vs sf), Potential (vur sf))
       \<and> (\<forall>a. ode_step (ode_solver s1) (t0, t0 + theta (parameters s1) * (t1 - t0)) (vs_prev s1) = Inr a
              \<longrightarrow> pde_step (pde_solver s1) (t0, t1) (v_part a) (vur s1) = Inl e
              \<longrightarrow> vs_prev sf = vs_prev s1 \<and> vs sf = a)"
proof -
  let ?calls = "{[ODEStep (t0, t0 + theta (parameters s1) * (t1 - t0))],
            [ODEStep (t0, t0 + theta (parameters s1) * (t1 - t0)), PDEStep (t0, t1)],
            [ODEStep (t0, t0 + theta (parameters s1) * (t1 - t0)), PDEStep (t0, t1),
             AssignPrevious, MergerAssign,
             ODEStep (t0 + theta (parameters s1) * (t1 - t0), t1)]}"
  from raises obtain sf where st: "snd (step s1 (t0, t1)) = Inl (e, sf)"
    and calls: "fst (step s1 (t0, t1)) \<in> ?calls"
  proof (elim disjE exE conjE)
    assume "ode_step (ode_solver s1) (t0, t0 + theta (parameters s1) * (t1 - t0)) (vs_prev s1) = Inl e"
    with step_raises [of s1 t0 t1 e]
    have "step s1 (t0, t1)
            = ([ODEStep (t0, t0 + theta (parameters s1) * (t1 - t0))],
               Inl (e, s1\<lparr>vs := ode_left (ode_solver s1)
                                  (t0, t0 + theta (parameters s1) * (t1 - t0))
                                  (vs_prev s1) (vs s1)\<rparr>))"
      by blast
    then show ?thesis by (intro that) simp_all
  next
    fix a
    assume "ode_step (ode_solver s1) (t0, t0 + theta (parameters s1) * (t1 - t0)) (vs_prev s1) = Inr a"
      and "pde_step (pde_solver s1) (t0, t1) (v_part a) (vur s1) = Inl e"
    with step_raises [of s1 t0 t1 e a]
    have "step s1 (t0, t1)
            = ([ODEStep (t0, t0 + theta (parameters s1) * (t1 - t0)), PDEStep (t0, t1)],
               Inl (e, s1\<lparr>vs := a,
                          vur := pde_left (pde_solver s1) (t0, t1) (v_part a) (vur s1)\<rparr>))"
      by blast
    then show ?thesis by (intro that) simp_all
  next
    fix a w m
    assume "ode_step (ode_solver s1) (t0, t0 + theta (parameters s1) * (t1 - t0)) (vs_prev s1) = Inr a"
      and "pde_step (pde_solver s1) (t0, t1) (v_part a) (vur s1) = Inr w"
      and "snd (merge (s1\<lparr>vur := w\<rparr>) a) = Inr m"
      and "theta (parameters s1) \<noteq> 1"
      and "ode_step (ode_solver s1) (t0 + theta (parameters s1) * (t1 - t0), t1) m = Inl e"
    with step_raises [of s1 t0 t1 e a w m]
    have "step s1 (t0, t1)
            = ([ODEStep (t0, t0 + theta (parameters s1) * (t1 - t0)), PDEStep (t0, t1),
                AssignPrevious, MergerAssign,
                ODEStep (t0 + theta (parameters s1) * (t1 - t0), t1)],
               Inl (e, s1\<lparr>vs_prev := m,
                          vs := ode_left (ode_solver s1)
                                  (t0 + theta (parameters s1) * (t1 - t0), t1) m a,
                          vur := w\<rparr>))"
      by blast
    then show ?thesis by (intro that) simp_all
  qed
  have c: "consume time_stepper (solve self interval dt) = (ys, Raise e, Finished (Inl (e, sf)))"
    by (rule consume_failure [where time_stepper = time_stepper and interval = interval
          and dt = dt and ivs = ivs and bad = "(t0, t1)" and rest = rest, OF ts before st])
  have h: "held (Finished (Inl (e, sf)))
           = (Composite (vs_prev sf), Composite (vs sf), Potential (vur sf))"
    by (simp add: held_def read_fields_def solution_fields_def)
  have p: "vs_prev sf = vs_prev s1 \<and> vs sf = a"
    if "ode_step (ode_solver s1) (t0, t0 + theta (parameters s1) * (t1 - t0)) (vs_prev s1) = Inr a"
      and "pde_step (pde_solver s1) (t0, t1) (v_part a) (vur s1) = Inl e" for a
    using st that by (auto simp add: step_result)
  from st calls c h p nexts_Finished [of time_stepper _ "Inl (e, sf)"]
  show ?thesis by blast
qed

theorem failure_propagates_witness:
  "consume TimeStepper (solve (example_solver (1 / 2) (failing_pde (3 / 10))) (0, 1 / 2) (1 / 5))
     = ([((0, 1 / 5), Composite \<lparr>v_part = 9, s_part = [6]\<rparr>, Composite \<lparr>v_part = 9, s_part = [6]\<rparr>,
          Potential (Mixed 8 [7])),
         ((1 / 5, 2 / 5), Composite \<lparr>v_part = 21, s_part = [8]\<rparr>,
          Composite \<lparr>v_part = 21, s_part = [8]\<rparr>, Potential (Mixed 20 [7]))],
        Raise LinearSolveError,
        Finished (Inl (LinearSolveError,
          (example_solver (1 / 2) (failing_pde (3 / 10)))
            \<lparr>vs_prev := \<lparr>v_part = 21, s_part = [8]\<rparr>, vs := \<lparr>v_part = 21, s_part = [8]\<rparr>,
             vur := Mixed 20 [7]\<rparr>)))"
proof -
  let ?s = "example_solver (1 / 2) (failing_pde (3 / 10))"
  let ?s1 = "?s\<lparr>vs_prev := \<lparr>v_part = 21, s_part = [8]\<rparr>, vs := \<lparr>v_part = 21, s_part = [8]\<rparr>,
               vur := Mixed 20 [7]\<rparr>"
  have ts: "TimeStepper (0, 1 / 2) (1 / 5) = Inr ([(0, 1 / 5), (1 / 5, 2 / 5)] @ (2 / 5, 1 / 2) # [])"
    by (simp add: TimeStepper_def time_steps.simps)
  have before: "consume (\<lambda>i d. Inr [(0, 1 / 5), (1 / 5, 2 / 5)]) (solve ?s (0, 1 / 2) (1 / 5))
     = ([((0, 1 / 5), Composite \<lparr>v_part = 9, s_part = [6]\<rparr>, Composite \<lparr>v_part = 9, s_part = [6]\<rparr>,
          Potential (Mixed 8 [7])),
         ((1 / 5, 2 / 5), Composite \<lparr>v_part = 21, s_part = [8]\<rparr>,
          Composite \<lparr>v_part = 21, s_part = [8]\<rparr>, Potential (Mixed 20 [7]))],
        StopIteration, Finished (Inr ?s1))"
    by (simp add: solve_def consume_NotStarted consume_Suspended_Cons consume_Suspended_Nil
        step_result solution_fields_def read_fields_def example_defs)
  have raises: "\<exists>a. ode_step (ode_solver ?s1) (2 / 5, 2 / 5 + theta (parameters ?s1) * (1 / 2 - 2 / 5))
                  (vs_prev ?s1) = Inr a
              \<and> pde_step (pde_solver ?s1) (2 / 5, 1 / 2) (v_part a) (vur ?s1) = Inl LinearSolveError"
    by (simp add: example_defs)
  have sf: "snd (step ?s1 (2 / 5, 1 / 2)) = Inl (LinearSolveError, ?s1)"
    by (simp only: step_result) (simp add: example_defs)
  from failure_propagates [where time_stepper = TimeStepper and interval = "(0, 1 / 2)"
      and dt = "1 / 5" and e = LinearSolveError, OF ts before] raises sf
  show ?thesis by auto
qed

text \<open>
  Claim C7, as stated, fails in its last part: a result that was yielded before the
  failure does not keep its values. With \<open>theta = 1/2\<close>, steps of \<open>1/5\<close> and a PDE
  solver that raises on the second interval, the objects yielded for \<open>(0, 1/5)\<close> held
  \<open>vs = (9, [6])\<close> at the \<^verbatim>\<open>yield\<close>; the tentative ODE step of the failing time step
  has written \<open>(10, [7])\<close> into \<^verbatim>\<open>vs\<close> before the PDE step raises.
\<close>

theorem yielded_fields_overwritten:
  "consume TimeStepper (solve (example_solver (1 / 2) (failing_pde (1 / 5))) (0, 1 / 2) (1 / 5))
     = ([((0, 1 / 5), Composite \<lparr>v_part = 9, s_part = [6]\<rparr>, Composite \<lparr>v_part = 9, s_part = [6]\<rparr>,
          Potential (Mixed 8 [7]))],
        Raise LinearSolveError,
        Finished (Inl (LinearSolveError,
          (example_solver (1 / 2) (failing_pde (1 / 5)))
            \<lparr>vs_prev := \<lparr>v_part = 9, s_part = [6]\<rparr>, vs := \<lparr>v_part = 10, s_part = [7]\<rparr>,
             vur := Mixed 8 [7]\<rparr>)))
   \<and> held (snd (snd (consume TimeStepper
              (solve (example_solver (1 / 2) (failing_pde (1 / 5))) (0, 1 / 2) (1 / 5)))))
     = (Composite \<lparr>v_part = 9, s_part = [6]\<rparr>, Composite \<lparr>v_part = 10, s_part = [7]\<rparr>,
        Potential (Mixed 8 [7]))
   \<and> held (snd (snd (consume TimeStepper
              (solve (example_solver (1 / 2) (failing_pde (1 / 5))) (0, 1 / 2) (1 / 5)))))
     \<noteq> snd (hd (fst (consume TimeStepper
              (solve (example_solver (1 / 2) (failing_pde (1 / 5))) (0, 1 / 2) (1 / 5)))))"
proof -
  have c: "consume TimeStepper (solve (example_solver (1 / 2) (failing_pde (1 / 5))) (0, 1 / 2) (1 / 5))
     = ([((0, 1 / 5), Composite \<lparr>v_part = 9, s_part = [6]\<rparr>, Composite \<lparr>v_part = 9, s_part = [6]\<rparr>,
          Potential (Mixed 8 [7]))],
        Raise LinearSolveError,
        Finished (Inl (LinearSolveError,
          (example_solver (1 / 2) (failing_pde (1 / 5)))
            \<lparr>vs_prev := \<lparr>v_part = 9, s_part = [6]\<rparr>, vs := \<lparr>v_part = 10, s_part = [7]\<rparr>,
             vur := Mixed 8 [7]\<rparr>)))"
    by (simp add: solve_def consume_NotStarted consume_Suspended_Cons consume_Suspended_Nil
        step_result solution_fields_def read_fields_def TimeStepper_def time_steps.simps
        example_defs)
  show ?thesis
    by (simp only: c) (simp add: held_def read_fields_def solution_fields_def)
qed

text \<open>
  Claim C8. For \<open>theta\<close> other than 1 (so for \<open>theta < 1\<close>) a step ends with
  previous := current, so at the \<^verbatim>\<open>yield\<close> the previous state is the current state and the
  assignment after the \<^verbatim>\<open>yield\<close> changes nothing. The generator without that assignment
  gives, for any number of \<^verbatim>\<open>next()\<close> calls, the same outcomes and is left in the same
  state (the solver's fields included).
\<close>

theorem strang_single_assign:
  assumes "theta (parameters self) \<noteq> 1"
  shows "(\<forall>iv self'. snd (step self iv) = Inr self' \<longrightarrow>
            vs_prev self' = vs self' \<and> self'\<lparr>vs_prev := vs self'\<rparr> = self')
       \<and> (\<forall>n. nexts (gen_next_single_assign time_stepper) n (solve self interval dt)
               = nexts (gen_next time_stepper) n (solve self interval dt))"
proof -
  have "vs_prev self' = vs self' \<and> self'\<lparr>vs_prev := vs self'\<rparr> = self'"
    if "snd (step self iv) = Inr self'" for iv self'
    using step_strang_previous [OF that assms] by simp
  moreover have "nexts (gen_next_single_assign time_stepper) n (solve self interval dt)
               = nexts (gen_next time_stepper) n (solve self interval dt)" for n
    by (rule nexts_single_assign) (simp add: solve_def assms)
  ultimately show ?thesis by blast
qed

theorem strang_single_assign_witness:
  "theta (parameters (example_solver (1 / 2) example_pde)) \<noteq> 1
   \<and> nexts (gen_next_single_assign TimeStepper) 3 (solve (example_solver (1 / 2) example_pde) (0, 1 / 2) (1 / 5))
     = nexts (gen_next TimeStepper) 3 (solve (example_solver (1 / 2) example_pde) (0, 1 / 2) (1 / 5))"
proof -
  have h: "theta (parameters (example_solver (1 / 2) example_pde)) \<noteq> 1"
    by (simp add: example_solver_def)
  from strang_single_assign [OF h, of TimeStepper "(0, 1 / 2)" "1 / 5"] h
  show ?thesis by blast
qed

section \<open>Time stepping\<close>

text \<open>
  Claim C6. For \<open>dt > 0\<close> and \<open>T0 < T1\<close> the intervals of \<^verbatim>\<open>TimeStepper((T0, T1), dt)\<close>
  tile \<open>[T0, T1]\<close>: the first starts at \<open>T0\<close>, each ends where the next starts, the last
  ends at \<open>T1\<close>, and none is longer than \<open>dt\<close> or runs over \<open>T1\<close>. The interval
  \<open>(0.0, 0.5)\<close> with \<open>dt = 0.1\<close> gives the five intervals
  \<open>(0.0, 0.1), (0.1, 0.2), (0.2, 0.3), (0.3, 0.4), (0.4, 0.5)\<close>.
\<close>

theorem time_stepper_tiles:
  "(0 < dt \<longrightarrow> T0 < T1 \<longrightarrow>
     (\<exists>ivs. TimeStepper (T0, T1) dt = Inr ivs \<and> ivs \<noteq> [] \<and> fst (hd ivs) = T0
        \<and> successively (\<lambda>a b. snd a = fst b) ivs
        \<and> snd (last ivs) = T1
        \<and> (\<forall>(a, b) \<in> set ivs. a < b \<and> b \<le> T1 \<and> b - a \<le> dt)))
   \<and> TimeStepper (0.0, 0.5) 0.1 = Inr [(0.0, 0.1), (0.1, 0.2), (0.2, 0.3), (0.3, 0.4), (0.4, 0.5)]"
proof -
  have a: "\<exists>ivs. TimeStepper (T0, T1) dt = Inr ivs \<and> ivs \<noteq> [] \<and> fst (hd ivs) = T0
        \<and> successively (\<lambda>a b. snd a = fst b) ivs
        \<and> snd (last ivs) = T1
        \<and> (\<forall>(a, b) \<in> set ivs. a < b \<and> b \<le> T1 \<and> b - a \<le> dt)"
    if "0 < dt" "T0 < T1"
    using time_steps_tiles [OF that] that by (auto simp: TimeStepper_def)
  have b: "TimeStepper (0.0, 0.5) 0.1 = Inr [(0.0, 0.1), (0.1, 0.2), (0.2, 0.3), (0.3, 0.4), (0.4, 0.5)]"
    by (simp add: TimeStepper_def time_steps.simps)
  from a b show ?thesis by blast
qed

theorem time_stepper_tiles_witness:
  "(0::real) < 1/10 \<and> (0::real) < 1/4
   \<and> TimeStepper (0, 1/4) (1/10) = Inr [(0, 1/10), (1/10, 1/5), (1/5, 1/4)]"
  using time_stepper_tiles [of "1/10" 0 "1/4"]
  by (simp add: TimeStepper_def time_steps.simps)

end
